theory Spec2Isabelle
  imports Complex_Main "HOL-Library.Multiset" "HOL-Library.Char_ord" "HOL-Library.List_Lexorder"
begin

unbundle bit_operations_syntax

section \<open>Strings and thrown values\<close>

text \<open>
  A JavaScript string is modelled as a \<^typ>\<open>string\<close>: one \<^typ>\<open>char\<close> per UTF-16 code unit, for
  strings whose code units are all below 256 (ASCII and Latin-1). On these strings
  \<open>substring(0, n)\<close> is \<^const>\<open>take\<close>, \<open>length\<close> is \<^const>\<open>length\<close>, and \<open>+\<close> is \<open>@\<close>. The two
  literals of the source that start with a character outside this range (a cross mark and a
  light bulb) are written with the UTF-8 bytes of that character; nothing below measures them.
\<close>

definition toLowerChar :: "char \<Rightarrow> char" where
  "toLowerChar c =
     (let n = (of_char c :: nat)
      in if (65 \<le> n \<and> n \<le> 90) \<or> (192 \<le> n \<and> n \<le> 222 \<and> n \<noteq> 215)
         then char_of (n + 32) else c)"

definition toLowerCase :: "string \<Rightarrow> string" where
  "toLowerCase s = map toLowerChar s"

definition startsWith :: "string \<Rightarrow> string \<Rightarrow> bool" where
  "startsWith s p = (take (length p) s = p)"

fun includesStr :: "string \<Rightarrow> string \<Rightarrow> bool" where
  "includesStr [] p = (p = [])"
| "includesStr (c # cs) p = (startsWith (c # cs) p \<or> includesStr cs p)"

fun joinWith :: "string \<Rightarrow> string list \<Rightarrow> string" where
  "joinWith sep [] = []"
| "joinWith sep [x] = x"
| "joinWith sep (x # y # ys) = x @ sep @ joinWith sep (y # ys)"

text \<open>
  What a \<open>throw\<close> carries: an \<open>Error\<close> with its message, the \<open>SecurityError\<close> subclass of
  \<open>src/utils/security.ts\<close>, or a value that is not an \<open>Error\<close> at all (with what \<open>String\<close>
  makes of it). \<open>messageOr e d\<close> is \<open>e instanceof Error ? e.message : d\<close>.
\<close>

datatype exn = Error string | SecurityError string | NonError string

fun messageOr :: "exn \<Rightarrow> string \<Rightarrow> string" where
  "messageOr (Error m) d = m"
| "messageOr (SecurityError m) d = m"
| "messageOr (NonError s) d = d"

section \<open>Analysis router (src/services/AnalysisRouter.ts)\<close>

subsection \<open>Result types\<close>

datatype RiskLevel = RiskNone | RiskLow | RiskMedium | RiskHigh

text \<open>
  A JavaScript number, as far as the router looks at it: not-a-number, the two infinities, or a
  finite value (a real; the sign of zero is not modelled, both zeros are falsy).
\<close>

datatype number = NaN | NegInfinity | Finite real | Infinity

fun num_le :: "number \<Rightarrow> number \<Rightarrow> bool" where
  "num_le NaN _ = False"
| "num_le _ NaN = False"
| "num_le NegInfinity _ = True"
| "num_le _ Infinity = True"
| "num_le (Finite x) (Finite y) = (x \<le> y)"
| "num_le _ _ = False"

definition Math_max :: "number \<Rightarrow> number \<Rightarrow> number" where
  "Math_max a b = (if a = NaN \<or> b = NaN then NaN else if num_le a b then b else a)"

definition Math_min :: "number \<Rightarrow> number \<Rightarrow> number" where
  "Math_min a b = (if a = NaN \<or> b = NaN then NaN else if num_le a b then a else b)"

record Issue =
  issue_type :: string
  issue_severity :: string
  issue_message :: string
  issue_pattern :: string
  issue_line :: "number option"

record AnalysisResult =
  riskLevel :: RiskLevel
  confidence :: number
  issues :: "Issue list"
  executionTime :: number
  upgradePrompt :: bool
  recommendations :: "string list"

text \<open>\<open>UserContext.tier\<close> is typed \<open>"free" | "pro"\<close>.\<close>

datatype UserTier = FreeTier | ProTier

record UserContext =
  userId :: "string option"
  email :: "string option"
  tier :: UserTier
  orgId :: "string option"

text \<open>
  The upstream response is typed \<open>any\<close> in \<open>mapAPIResult\<close>. A field read with \<open>||\<close> is either
  missing (\<open>undefined\<close>), \<open>null\<close>, or a value of the field's JSON type.
\<close>

datatype 'a field = Missing | Null | Val 'a

record APIResult =
  api_riskLevel :: "string field"
  api_confidence :: "number field"
  api_issues :: "Issue list field"
  api_analysisTimeMs :: "number field"
  api_recommendations :: "string list field"

text \<open>\<open>x || d\<close> on a number field: \<open>undefined\<close>, \<open>null\<close>, \<open>0\<close> and \<open>NaN\<close> are falsy.\<close>

fun numberOr :: "number field \<Rightarrow> number \<Rightarrow> number" where
  "numberOr Missing d = d"
| "numberOr Null d = d"
| "numberOr (Val n) d = (if n = NaN \<or> n = Finite 0 then d else n)"

text \<open>\<open>x || []\<close> on an array field: every array, also the empty one, is truthy.\<close>

fun arrayOr :: "'a list field \<Rightarrow> 'a list \<Rightarrow> 'a list" where
  "arrayOr Missing d = d"
| "arrayOr Null d = d"
| "arrayOr (Val xs) d = xs"

subsection \<open>Mapping the upstream result\<close>

text \<open>
  \<open>mapRiskLevel\<close>: \<open>switch (apiLevel?.toLowerCase())\<close>. On \<open>undefined\<close> and \<open>null\<close> the optional
  chain yields \<open>undefined\<close>, which only the \<open>default\<close> case matches.
\<close>

fun mapRiskLevel :: "string field \<Rightarrow> RiskLevel" where
  "mapRiskLevel (Val apiLevel) =
     (let l = toLowerCase apiLevel
      in if l = ''high'' \<or> l = ''critical'' then RiskHigh
         else if l = ''medium'' then RiskMedium
         else if l = ''low'' then RiskLow
         else RiskNone)"
| "mapRiskLevel _ = RiskNone"

definition mapAPIResult :: "APIResult \<Rightarrow> AnalysisResult" where
  "mapAPIResult apiResult =
     \<lparr> riskLevel = mapRiskLevel (api_riskLevel apiResult),
       confidence = Math_min (Finite 1) (Math_max (Finite 0) (numberOr (api_confidence apiResult) (Finite (1/2)))),
       issues = arrayOr (api_issues apiResult) [],
       executionTime = numberOr (api_analysisTimeMs apiResult) (Finite 0),
       upgradePrompt = False,
       recommendations = arrayOr (api_recommendations apiResult) [] \<rparr>"

text \<open>The light bulb (U+1F4A1) that starts the appended recommendation, as UTF-8 bytes.\<close>

definition lightBulb :: string where
  "lightBulb = [CHR 0xF0, CHR 0x9F, CHR 0x92, CHR 0xA1]"

definition addUpgradePrompt :: "AnalysisResult \<Rightarrow> string \<Rightarrow> AnalysisResult" where
  "addUpgradePrompt result msg =
     result\<lparr> upgradePrompt := True,
             recommendations := recommendations result @
               [lightBulb @ '' '' @ msg @ '' for advanced analysis capabilities.''] \<rparr>"

subsection \<open>Circuit breaker\<close>

datatype BreakerState = CLOSED | OPEN | HALF_OPEN

record CircuitBreaker =
  state :: BreakerState
  failureCount :: int
  successCount :: int
  nextAttemptAt :: int
  failureThreshold :: int
  successThreshold :: int
  timeout :: int

text \<open>\<open>new CircuitBreaker()\<close> at time \<open>now\<close>, with the constructor's defaults.\<close>

definition newCircuitBreaker :: "int \<Rightarrow> CircuitBreaker" where
  "newCircuitBreaker now =
     \<lparr> state = CLOSED, failureCount = 0, successCount = 0, nextAttemptAt = now,
       failureThreshold = 3, successThreshold = 2, timeout = 30000 \<rparr>"

definition onSuccess :: "CircuitBreaker \<Rightarrow> CircuitBreaker" where
  "onSuccess cb =
     (if state cb = HALF_OPEN
      then (let cb1 = cb\<lparr>successCount := successCount cb + 1\<rparr>
            in if successCount cb1 \<ge> successThreshold cb1
               then cb1\<lparr>state := CLOSED, failureCount := 0, successCount := 0\<rparr>
               else cb1)
      else cb)"

definition onFailure :: "CircuitBreaker \<Rightarrow> int \<Rightarrow> CircuitBreaker" where
  "onFailure cb now =
     (let cb1 = cb\<lparr>failureCount := failureCount cb + 1\<rparr>
      in if failureCount cb1 \<ge> failureThreshold cb1
         then cb1\<lparr>state := OPEN, nextAttemptAt := now + timeout cb1\<rparr>
         else cb1)"

text \<open>
  \<open>execute(fn)\<close>. \<open>enter\<close> is \<open>Date.now()\<close> at the first line, \<open>fail\<close> is \<open>Date.now()\<close> in the
  \<open>catch\<close> block, and \<open>outcome\<close> is what awaiting \<open>fn()\<close> gives if it is called. The result is
  what \<open>execute\<close> returns or throws, the breaker afterwards, and whether \<open>fn\<close> was called.
\<close>

definition execute ::
  "CircuitBreaker \<Rightarrow> int \<Rightarrow> int \<Rightarrow> exn + 'a \<Rightarrow> (exn + 'a) \<times> CircuitBreaker \<times> bool" where
  "execute cb enter fail outcome =
     (if state cb = OPEN \<and> enter < nextAttemptAt cb
      then (Inl (Error ''Circuit breaker is OPEN''), cb, False)
      else (let cb1 = (if state cb = OPEN then cb\<lparr>state := HALF_OPEN\<rparr> else cb)
            in case outcome of
                 Inr result \<Rightarrow> (Inr result, onSuccess cb1, True)
               | Inl error \<Rightarrow> (Inl error, onFailure cb1 fail, True)))"

text \<open>A run of calls through one breaker; each call brings its two clock readings.\<close>

fun executeAll :: "CircuitBreaker \<Rightarrow> (int \<times> int \<times> (exn + 'a)) list \<Rightarrow> CircuitBreaker" where
  "executeAll cb [] = cb"
| "executeAll cb ((enter, fail, outcome) # calls) =
     executeAll (fst (snd (execute cb enter fail outcome))) calls"

fun isFailure :: "int \<times> int \<times> (exn + 'a) \<Rightarrow> bool" where
  "isFailure (_, _, Inl _) = True"
| "isFailure (_, _, Inr _) = False"

subsection \<open>Routing\<close>

record AnalysisContext =
  projectType :: string
  language :: string

record AnalysisRequest =
  request_code :: string
  request_filePath :: string
  request_context :: AnalysisContext

text \<open>
  The router's fields. The local analyzer (\<open>@snapback/guardian-lite\<close>) and the upstream client
  are collaborators: \<open>guardian\<close> is what \<open>guardian.analyze(code)\<close> returns or throws, \<open>apiClient\<close>
  (when present) what \<open>analyzeFast(request)\<close> resolves or rejects with. The constructor creates
  the breaker exactly when it is given a client.
\<close>

record AnalysisRouter =
  guardian :: "string \<Rightarrow> exn + AnalysisResult"
  apiClient :: "(AnalysisRequest \<Rightarrow> exn + APIResult) option"
  circuitBreaker :: "CircuitBreaker option"
  featureFlags :: "string \<rightharpoonup> bool"

definition newAnalysisRouter ::
  "(string \<Rightarrow> exn + AnalysisResult) \<Rightarrow> (AnalysisRequest \<Rightarrow> exn + APIResult) option \<Rightarrow> int \<Rightarrow> AnalysisRouter" where
  "newAnalysisRouter g api now =
     \<lparr> guardian = g, apiClient = api,
       circuitBreaker = (case api of None \<Rightarrow> None | Some _ \<Rightarrow> Some (newCircuitBreaker now)),
       featureFlags = Map.empty \<rparr>"

definition setFeatureFlag :: "AnalysisRouter \<Rightarrow> string \<Rightarrow> bool \<Rightarrow> AnalysisRouter" where
  "setFeatureFlag r name enabled = r\<lparr>featureFlags := (featureFlags r)(name \<mapsto> enabled)\<rparr>"

definition fastRequest :: "string \<Rightarrow> AnalysisRequest" where
  "fastRequest c =
     \<lparr> request_code = c, request_filePath = ''analysis.ts'',
       request_context = \<lparr> projectType = ''mcp-analysis'', language = ''typescript'' \<rparr> \<rparr>"

text \<open>
  Every routing function returns what the source returns or throws, the router afterwards, and
  the number of times \<open>apiClient.analyzeFast\<close> was called.
\<close>

definition analyzeWithAPI ::
  "AnalysisRouter \<Rightarrow> int \<Rightarrow> int \<Rightarrow> string \<Rightarrow> (exn + AnalysisResult) \<times> AnalysisRouter \<times> nat" where
  "analyzeWithAPI r enter fail c =
     (case (apiClient r, circuitBreaker r) of
        (Some api, Some cb) \<Rightarrow>
          (case execute cb enter fail (map_sum id mapAPIResult (api (fastRequest c))) of
             (Inr result, cb', called) \<Rightarrow>
               (Inr result, r\<lparr>circuitBreaker := Some cb'\<rparr>, if called then 1 else 0)
           | (Inl error, cb', called) \<Rightarrow>
               (guardian r c, r\<lparr>circuitBreaker := Some cb'\<rparr>, if called then 1 else 0))
      | _ \<Rightarrow> (guardian r c, r, 0))"

definition upgradeMessage :: string where
  "upgradeMessage = ''Free tier users can upgrade to Pro for advanced ML-based analysis''"

definition analyze ::
  "AnalysisRouter \<Rightarrow> int \<Rightarrow> int \<Rightarrow> string \<Rightarrow> UserContext option
     \<Rightarrow> (exn + AnalysisResult) \<times> AnalysisRouter \<times> nat" where
  "analyze r enter fail c userContext =
     (let t = (case userContext of None \<Rightarrow> FreeTier | Some u \<Rightarrow> tier u)
      in if t = FreeTier
         then (map_sum id (\<lambda>result. addUpgradePrompt result upgradeMessage) (guardian r c), r, 0)
         else if apiClient r \<noteq> None \<and> circuitBreaker r \<noteq> None
                 \<and> featureFlags r ''ml-detection'' \<noteq> Some False
         then (case analyzeWithAPI r enter fail c of
                 (Inr result, r', n) \<Rightarrow> (Inr result, r', n)
               | (Inl error, r', n) \<Rightarrow> (guardian r' c, r', n))
         else (guardian r c, r, 0))"

section \<open>Snapshot hash (the module of \<open>blake3Hash\<close> and \<open>generateSnapshotHash\<close>)\<close>

subsection \<open>The digest\<close>

text \<open>
  \<open>blake3Hash\<close> is \<open>createHash("sha256").update(content).digest("hex")\<close>: the SHA-256 of
  FIPS 180-4 over the UTF-8 encoding of the string, as 64 lower-case hexadecimal digits.
  A 32-bit word is an \<^typ>\<open>int\<close> in \<open>[0, 2^32)\<close>, with the wrap-around written out by \<open>m32\<close>;
  the round constants and the initial hash value are given in decimal.
\<close>

definition m32 :: "int \<Rightarrow> int" where
  "m32 x = x mod 4294967296"

definition rotr :: "nat \<Rightarrow> int \<Rightarrow> int" where
  "rotr n x = drop_bit n x OR m32 (push_bit (32 - n) x)"

definition bsig0 :: "int \<Rightarrow> int" where
  "bsig0 x = rotr 2 x XOR rotr 13 x XOR rotr 22 x"

definition bsig1 :: "int \<Rightarrow> int" where
  "bsig1 x = rotr 6 x XOR rotr 11 x XOR rotr 25 x"

definition ssig0 :: "int \<Rightarrow> int" where
  "ssig0 x = rotr 7 x XOR rotr 18 x XOR drop_bit 3 x"

definition ssig1 :: "int \<Rightarrow> int" where
  "ssig1 x = rotr 17 x XOR rotr 19 x XOR drop_bit 10 x"

definition ch :: "int \<Rightarrow> int \<Rightarrow> int \<Rightarrow> int" where
  "ch x y z = (x AND y) XOR ((4294967295 - x) AND z)"

definition maj :: "int \<Rightarrow> int \<Rightarrow> int \<Rightarrow> int" where
  "maj x y z = (x AND y) XOR (x AND z) XOR (y AND z)"

definition K256 :: "int list" where
  "K256 =
     [1116352408, 1899447441, 3049323471, 3921009573,
      961987163, 1508970993, 2453635748, 2870763221,
      3624381080, 310598401, 607225278, 1426881987,
      1925078388, 2162078206, 2614888103, 3248222580,
      3835390401, 4022224774, 264347078, 604807628,
      770255983, 1249150122, 1555081692, 1996064986,
      2554220882, 2821834349, 2952996808, 3210313671,
      3336571891, 3584528711, 113926993, 338241895,
      666307205, 773529912, 1294757372, 1396182291,
      1695183700, 1986661051, 2177026350, 2456956037,
      2730485921, 2820302411, 3259730800, 3345764771,
      3516065817, 3600352804, 4094571909, 275423344,
      430227734, 506948616, 659060556, 883997877,
      958139571, 1322822218, 1537002063, 1747873779,
      1955562222, 2024104815, 2227730452, 2361852424,
      2428436474, 2756734187, 3204031479, 3329325298]"

definition H256 :: "int list" where
  "H256 =
     [1779033703, 3144134277, 1013904242, 2773480762,
      1359893119, 2600822924, 528734635, 1541459225]"

text \<open>One code unit below 256 as UTF-8: itself below 128, two bytes from there on.\<close>

definition utf8Char :: "char \<Rightarrow> int list" where
  "utf8Char c =
     (let n = (of_char c :: int)
      in if n < 128 then [n] else [192 + n div 64, 128 + n mod 64])"

definition utf8Encode :: "string \<Rightarrow> int list" where
  "utf8Encode s = concat (map utf8Char s)"

text \<open>Padding: the byte \<open>0x80\<close>, zeros up to 56 modulo 64, the bit length in 8 bytes.\<close>

definition pad :: "int list \<Rightarrow> int list" where
  "pad bs =
     (let n = int (length bs); l = 8 * n
      in bs @ [128] @ replicate (nat ((119 - n) mod 64)) 0 @
         [l div 72057594037927936 mod 256, l div 281474976710656 mod 256,
          l div 1099511627776 mod 256, l div 4294967296 mod 256,
          l div 16777216 mod 256, l div 65536 mod 256, l div 256 mod 256, l mod 256])"

fun be32 :: "int list \<Rightarrow> int list" where
  "be32 (a # b # c # d # bs) = (((a * 256 + b) * 256 + c) * 256 + d) # be32 bs"
| "be32 _ = []"

text \<open>
  The message schedule as a window of 16 words: the head is the word of the current round,
  and each round appends the word 16 places further on.
\<close>

fun extend :: "int list \<Rightarrow> int list" where
  "extend (w0 # w1 # w2 # w3 # w4 # w5 # w6 # w7 # w8 # w9 # w10 # w11 # w12 # w13 # w14 # w15 # ws) =
     [w1, w2, w3, w4, w5, w6, w7, w8, w9, w10, w11, w12, w13, w14, w15,
      m32 (ssig1 w14 + w9 + ssig0 w1 + w0)]"
| "extend ws = ws"

fun step2 :: "int \<Rightarrow> int \<Rightarrow> int list \<Rightarrow> int list" where
  "step2 t1 t2 [a, b, c, d, e, f, g, h] = [m32 (t1 + t2), a, b, c, m32 (d + t1), e, f, g]"
| "step2 t1 t2 st = st"

fun step :: "int \<Rightarrow> int \<Rightarrow> int list \<Rightarrow> int list" where
  "step k w [a, b, c, d, e, f, g, h] =
     step2 (h + bsig1 e + ch e f g + k + w) (bsig0 a + maj a b c) [a, b, c, d, e, f, g, h]"
| "step k w st = st"

fun rounds :: "int list \<Rightarrow> int list \<Rightarrow> int list \<Rightarrow> int list" where
  "rounds [] ws st = st"
| "rounds (k # ks) ws st = rounds ks (extend ws) (step k (hd ws) st)"

definition compress :: "int list \<Rightarrow> int list \<Rightarrow> int list" where
  "compress st ws = map2 (\<lambda>x y. m32 (x + y)) st (rounds K256 ws st)"

fun hashBlocks :: "int list \<Rightarrow> int list \<Rightarrow> int list" where
  "hashBlocks st (w0 # w1 # w2 # w3 # w4 # w5 # w6 # w7 # w8 # w9 # w10 # w11 # w12 # w13 # w14 # w15 # ws) =
     hashBlocks (compress st [w0, w1, w2, w3, w4, w5, w6, w7, w8, w9, w10, w11, w12, w13, w14, w15]) ws"
| "hashBlocks st ws = st"

definition sha256 :: "int list \<Rightarrow> int list" where
  "sha256 bs = hashBlocks H256 (be32 (pad bs))"

definition hexDigit :: "int \<Rightarrow> char" where
  "hexDigit d = ''0123456789abcdef'' ! nat d"

definition hex32 :: "int \<Rightarrow> string" where
  "hex32 w = map (\<lambda>i. hexDigit (drop_bit (28 - 4 * i) w AND 15)) [0, 1, 2, 3, 4, 5, 6, 7]"

definition blake3Hash :: "string \<Rightarrow> string" where
  "blake3Hash content = concat (map hex32 (sha256 (utf8Encode content)))"

subsection \<open>The snapshot hash\<close>

record FileEntry =
  path :: string
  content :: string

text \<open>
  \<open>[...files].sort(compare)\<close>: \<open>Array.prototype.sort\<close> is stable, so with a consistent
  comparator its result is the one of any stable sort; the model is insertion sort, which
  moves an element behind another only when \<open>compare\<close> of the two is positive.
\<close>

fun insertBy :: "('a \<Rightarrow> 'a \<Rightarrow> int) \<Rightarrow> 'a \<Rightarrow> 'a list \<Rightarrow> 'a list" where
  "insertBy compare x [] = [x]"
| "insertBy compare x (y # ys) =
     (if compare x y \<le> 0 then x # y # ys else y # insertBy compare x ys)"

definition sortWith :: "('a \<Rightarrow> 'a \<Rightarrow> int) \<Rightarrow> 'a list \<Rightarrow> 'a list" where
  "sortWith compare xs = foldr (insertBy compare) xs []"

text \<open>
  \<open>String.prototype.localeCompare\<close> is the host's locale-sensitive comparison (ECMA-402, in
  Node the ICU collation of the default locale), not code of this repository: it is the
  parameter \<open>localeCompare\<close> of the three definitions below, which are the three statements of
  \<open>generateSnapshotHash\<close>.
\<close>

definition sortedFiles :: "(string \<Rightarrow> string \<Rightarrow> int) \<Rightarrow> FileEntry list \<Rightarrow> FileEntry list" where
  "sortedFiles localeCompare files = sortWith (\<lambda>a b. localeCompare (path a) (path b)) files"

definition combinedData :: "(string \<Rightarrow> string \<Rightarrow> int) \<Rightarrow> FileEntry list \<Rightarrow> string" where
  "combinedData localeCompare files =
     joinWith ''|''
       (map (\<lambda>file. path file @ '':'' @ blake3Hash (content file)) (sortedFiles localeCompare files))"

definition generateSnapshotHash :: "(string \<Rightarrow> string \<Rightarrow> int) \<Rightarrow> FileEntry list \<Rightarrow> string" where
  "generateSnapshotHash localeCompare files = blake3Hash (combinedData localeCompare files)"

text \<open>
  The construction in the specification's words, for comparison with the code: the entries
  sorted by path in byte-lexicographic order (the order of \<^typ>\<open>string\<close> here: code units
  compared one by one, a proper prefix first), each as \<open>path:digest\<close>, joined by \<open>|\<close>, hashed.
\<close>

definition byteOrderSnapshotHash :: "FileEntry list \<Rightarrow> string" where
  "byteOrderSnapshotHash files =
     blake3Hash
       (joinWith ''|'' (map (\<lambda>file. path file @ '':'' @ blake3Hash (content file)) (sort_key path files)))"

text \<open>
  What ICU's root collation, the default of a Node host, makes of strings of ASCII letters and
  digits: digits before letters and letters in alphabetical order whatever their case; when
  that does not decide, the first difference in case does, lower case first. It stands for
  \<open>localeCompare\<close> where a property is run on an example.
\<close>

fun compareLists :: "nat list \<Rightarrow> nat list \<Rightarrow> int" where
  "compareLists [] [] = 0"
| "compareLists [] (y # ys) = -1"
| "compareLists (x # xs) [] = 1"
| "compareLists (x # xs) (y # ys) =
     (if x < y then -1 else if y < x then 1 else compareLists xs ys)"

definition primaryWeight :: "char \<Rightarrow> nat" where
  "primaryWeight c = of_char (toLowerChar c)"

definition tertiaryWeight :: "char \<Rightarrow> nat" where
  "tertiaryWeight c = (if toLowerChar c = c then 0 else 1)"

definition localeCompareAscii :: "string \<Rightarrow> string \<Rightarrow> int" where
  "localeCompareAscii a b =
     (let primary = compareLists (map primaryWeight a) (map primaryWeight b)
      in if primary \<noteq> 0 then primary
         else compareLists (map tertiaryWeight a) (map tertiaryWeight b))"

section \<open>Path validation (src/utils/security.ts)\<close>

subsection \<open>String helpers of the host language\<close>

text \<open>\<open>s.split(sep)\<close> for a one-character separator: the pieces between the separators.\<close>

fun splitOn :: "char \<Rightarrow> string \<Rightarrow> string list" where
  "splitOn sep [] = [[]]"
| "splitOn sep (c # cs) =
     (if c = sep then [] # splitOn sep cs
      else (case splitOn sep cs of [] \<Rightarrow> [[c]] | w # ws \<Rightarrow> (c # w) # ws))"

text \<open>
  White space of \<open>trim()\<close> among the code units below 256: tab, line feed, vertical tab, form
  feed, carriage return, space and no-break space.
\<close>

definition isWhiteSpace :: "char \<Rightarrow> bool" where
  "isWhiteSpace c = ((of_char c :: nat) \<in> {9, 10, 11, 12, 13, 32, 160})"

definition trim :: "string \<Rightarrow> string" where
  "trim s = rev (dropWhile isWhiteSpace (rev (dropWhile isWhiteSpace s)))"

definition NUL :: char where
  "NUL = CHR 0x00"

definition backslash :: char where
  "backslash = CHR 0x5C"

subsection \<open>Node's \<open>path\<close> module on a POSIX host\<close>

text \<open>
  \<open>path.normalize\<close>, \<open>path.join\<close>, \<open>path.isAbsolute\<close>, \<open>path.dirname\<close> and \<open>path.basename\<close> are
  platform code. They are modelled as Node's POSIX implementation behaves, with \<open>path.sep\<close>
  the slash. \<open>normalizeString\<close> walks the segments between slashes: empty segments and \<open>.\<close>
  are dropped, \<open>..\<close> removes the segment before it when there is one that is not \<open>..\<close> itself,
  and is kept only where that is allowed (in a relative path).
\<close>

definition sep :: char where
  "sep = CHR ''/''"

fun normalizeSegments :: "bool \<Rightarrow> string list \<Rightarrow> string list \<Rightarrow> string list" where
  "normalizeSegments allowAboveRoot res [] = res"
| "normalizeSegments allowAboveRoot res (seg # segs) =
     normalizeSegments allowAboveRoot
       (if seg = [] \<or> seg = ''.'' then res
        else if seg = ''..''
        then (if res \<noteq> [] \<and> last res \<noteq> ''..'' then butlast res
              else if allowAboveRoot then res @ [''..''] else res)
        else res @ [seg])
       segs"

definition normalizeString :: "string \<Rightarrow> bool \<Rightarrow> string" where
  "normalizeString p allowAboveRoot = joinWith ''/'' (normalizeSegments allowAboveRoot [] (splitOn sep p))"

definition isAbsolute :: "string \<Rightarrow> bool" where
  "isAbsolute p = (p \<noteq> [] \<and> hd p = sep)"

definition normalize :: "string \<Rightarrow> string" where
  "normalize p =
     (if p = [] then ''.''
      else (let isAbs = (hd p = sep); trailingSeparator = (last p = sep);
                q = normalizeString p (\<not> isAbs)
            in if q = [] then (if isAbs then ''/'' else if trailingSeparator then ''./'' else ''.'')
               else (let q' = (if trailingSeparator then q @ ''/'' else q)
                     in if isAbs then ''/'' @ q' else q')))"

definition join :: "string list \<Rightarrow> string" where
  "join args =
     (let parts = filter (\<lambda>arg. arg \<noteq> []) args
      in if parts = [] then ''.'' else normalize (joinWith ''/'' parts))"

text \<open>
  \<open>dirname\<close>: behind the trailing slashes and the last segment, the text before the slash that
  precedes that segment; the first character is never taken for that slash.
\<close>

definition dirname :: "string \<Rightarrow> string" where
  "dirname p =
     (if p = [] then ''.''
      else (let hasRoot = (hd p = sep);
                rest = dropWhile (\<lambda>c. c \<noteq> sep) (dropWhile (\<lambda>c. c = sep) (rev p));
                e = length rest - 1
            in if length rest < 2 then (if hasRoot then ''/'' else ''.'')
               else if hasRoot \<and> e = 1 then ''//''
               else take e p))"

definition basename :: "string \<Rightarrow> string" where
  "basename p = rev (takeWhile (\<lambda>c. c \<noteq> sep) (dropWhile (\<lambda>c. c = sep) (rev p)))"

subsection \<open>The host\<close>

text \<open>
  What the validator reads from its host: \<open>process.platform\<close>, \<open>fs.realpathSync\<close> (the real
  path, or the message of the error it throws), \<open>fs.existsSync\<close>, and whether the module's
  telemetry client has been initialised. The path functions above are those of a POSIX host;
  the block for \<open>win32\<close> is kept as a branch so that the model reads as the source does.
\<close>

record Host =
  platform :: string
  realpathSync :: "string \<Rightarrow> string + string"
  existsSync :: "string \<Rightarrow> bool"
  telemetryClient :: bool

text \<open>An event at the telemetry sink: the event name and its properties, in order.\<close>

type_synonym TelemetryEvent = "string \<times> (string \<times> string) list"

definition trackSecurityViolation :: "Host \<Rightarrow> string \<Rightarrow> (string \<times> string) list \<Rightarrow> TelemetryEvent list" where
  "trackSecurityViolation h violationType details =
     (if telemetryClient h
      then [(''security.violation'', (''violationType'', violationType) # details)]
      else [])"

text \<open>
  Every rejection of the source is the same three statements: build \<open>violationDetails\<close>, track
  them as \<open>path_validation_failed\<close>, throw a \<open>SecurityError\<close>.
\<close>

definition reject :: "Host \<Rightarrow> (string \<times> string) list \<Rightarrow> string \<Rightarrow> (exn + string) \<times> TelemetryEvent list" where
  "reject h violationDetails msg =
     (Inl (SecurityError msg), trackSecurityViolation h ''path_validation_failed'' violationDetails)"

subsection \<open>\<open>validateFilePath\<close>\<close>

definition encodedPatterns :: "string list" where
  "encodedPatterns = [''%2e%2e%2f'', ''%2e%2e/'', ''..%2f'', ''%252e'', ''%252f'', ''%2e%2e%5c'', ''..%5c'']"

text \<open>The regular expression \<open>/^[a-zA-Z]:/\<close>.\<close>

definition driveLetter :: "string \<Rightarrow> bool" where
  "driveLetter s =
     (case s of
        c # d # _ \<Rightarrow> d = CHR '':'' \<and>
          (let n = (of_char c :: nat) in (65 \<le> n \<and> n \<le> 90) \<or> (97 \<le> n \<and> n \<le> 122))
      | _ \<Rightarrow> False)"

definition absolutePath :: "string \<Rightarrow> string \<Rightarrow> string" where
  "absolutePath filePath workspaceRoot =
     (let normalized = normalize filePath
      in if isAbsolute normalized then normalized else join [workspaceRoot, normalized])"

text \<open>
  Lines 173 to 196: the workspace boundary. \<open>fs.realpathSync(workspaceRoot)\<close> is the one call
  whose error reaches the outer \<open>catch\<close>, which reports \<open>validation_exception\<close>.
\<close>

definition checkWorkspace :: "Host \<Rightarrow> string \<Rightarrow> string \<Rightarrow> string \<Rightarrow> (exn + string) \<times> TelemetryEvent list" where
  "checkWorkspace h filePath workspaceRoot realPath =
     (case realpathSync h workspaceRoot of
        Inl errorMessage \<Rightarrow>
          reject h
            [(''filePath'', take 100 filePath), (''reason'', ''validation_exception''),
             (''error'', errorMessage)]
            (''Path validation failed: '' @ errorMessage)
      | Inr workspaceRealPath \<Rightarrow>
          if \<not> startsWith realPath (workspaceRealPath @ [sep]) \<and> realPath \<noteq> workspaceRealPath
          then reject h
                 [(''filePath'', take 100 realPath), (''workspacePath'', take 100 workspaceRealPath),
                  (''reason'', ''outside_workspace'')]
                 (''Path outside workspace: '' @ realPath @ '' not in '' @ workspaceRealPath)
          else if includesStr realPath [NUL]
          then reject h
                 [(''filePath'', take 100 realPath), (''reason'', ''null_bytes_resolved'')]
                 ''Path contains null bytes''
          else (Inr realPath, []))"

text \<open>Lines 140 to 171: the real path of the file, or of its parent when the file is not there.\<close>

definition resolveRealPath :: "Host \<Rightarrow> string \<Rightarrow> (exn + string) \<times> TelemetryEvent list" where
  "resolveRealPath h absPath =
     (case realpathSync h absPath of
        Inr realPath \<Rightarrow> (Inr realPath, [])
      | Inl _ \<Rightarrow>
          (let parentDir = dirname absPath
           in if \<not> existsSync h parentDir
              then reject h
                     [(''filePath'', take 100 absPath), (''parentDir'', take 100 parentDir),
                      (''reason'', ''parent_not_exist'')]
                     (''Parent directory does not exist: '' @ parentDir)
              else (case realpathSync h parentDir of
                      Inr realParent \<Rightarrow> (Inr (join [realParent, basename absPath]), [])
                    | Inl _ \<Rightarrow>
                        reject h
                          [(''filePath'', take 100 absPath), (''parentDir'', take 100 parentDir),
                           (''reason'', ''parent_resolution_failed'')]
                          (''Cannot resolve parent directory: '' @ parentDir))))"

text \<open>
  Lines 66 to 138: the checks on the text of the path. \<open>None\<close> when none of them throws,
  otherwise what the first one that does throws and tracks.
\<close>

definition textChecks :: "Host \<Rightarrow> string \<Rightarrow> ((exn + string) \<times> TelemetryEvent list) option" where
  "textChecks h filePath =
     (if includesStr filePath [NUL]
      then Some (reject h [(''filePath'', take 100 filePath), (''reason'', ''null_bytes'')]
             ''Null bytes in path not allowed'')
      else if filePath = [] \<or> length (trim filePath) = 0
      then Some (reject h [(''filePath'', take 100 filePath), (''reason'', ''empty_path'')]
             ''File path cannot be empty'')
      else (let normalized = normalize filePath;
                lowerPath = toLowerCase normalized
            in if list_ex (\<lambda>pattern. includesStr lowerPath pattern) encodedPatterns
               then Some (reject h
                      [(''filePath'', take 100 normalized), (''reason'', ''encoded_traversal''),
                       (''pattern'',
                        (case find (\<lambda>pattern. includesStr lowerPath pattern) encodedPatterns of
                           Some pattern \<Rightarrow> pattern | None \<Rightarrow> []))]
                      ''Encoded path traversal not allowed'')
               else if list_ex (\<lambda>seg. seg = ''..'') (splitOn sep normalized)
               then Some (reject h [(''filePath'', take 100 normalized), (''reason'', ''path_traversal'')]
                      ''Path traversal not allowed'')
               else if platform h = ''win32'' \<and> startsWith normalized [backslash, backslash]
               then Some (reject h [(''filePath'', take 100 normalized), (''reason'', ''unc_path'')]
                      ''UNC paths not allowed'')
               else if platform h = ''win32'' \<and> driveLetter normalized
               then Some (reject h [(''filePath'', take 100 normalized), (''reason'', ''drive_letter'')]
                      ''Windows drive letters not allowed'')
               else None))"

text \<open>
  The function returns the validated path or throws; with it, the events that reached the
  telemetry sink on the way. A \<open>SecurityError\<close> thrown inside passes the outer \<open>catch\<close>
  unchanged.
\<close>

definition validateFilePath :: "Host \<Rightarrow> string \<Rightarrow> string \<Rightarrow> (exn + string) \<times> TelemetryEvent list" where
  "validateFilePath h filePath workspaceRoot =
     (case textChecks h filePath of
        Some thrown \<Rightarrow> thrown
      | None \<Rightarrow>
          (case resolveRealPath h (absolutePath filePath workspaceRoot) of
             (Inl error, events) \<Rightarrow> (Inl error, events)
           | (Inr realPath, events) \<Rightarrow>
               (case checkWorkspace h filePath workspaceRoot realPath of
                  (result, events') \<Rightarrow> (result, events @ events'))))"

subsection \<open>Vocabulary for the properties of the validator\<close>











text \<open>
  A plain file name: one segment that is neither \<open>.\<close> nor \<open>..\<close>, without a NUL, not blank,
  and with none of the encoded traversal patterns in it.
\<close>

definition plainFileName :: "string \<Rightarrow> bool" where
  "plainFileName name =
     (sep \<notin> set name \<and> name \<noteq> ''.'' \<and> name \<noteq> ''..'' \<and> NUL \<notin> set name
      \<and> \<not> list_all isWhiteSpace name
      \<and> \<not> list_ex (\<lambda>pattern. includesStr (toLowerCase name) pattern) encodedPatterns)"

section \<open>Tool access and the snapshot tools\<close>

subsection \<open>Authorization (src/auth.ts)\<close>

datatype Tier = Free | Pro | Admin

record AuthResult =
  valid :: bool
  auth_tier :: Tier
  scopes :: "string list option"
  auth_userId :: "string option"
  organizationId :: "string option"
  auth_error :: "string option"

text \<open>
  What reading a property of an object literal gives: the string of an own key, or, for a
  key that the literal does not have and \<open>Object.prototype\<close> has, the member inherited from
  there, which is a function or an object and never a string. A key of neither kind reads
  as \<open>undefined\<close>, here \<open>None\<close>.
\<close>

datatype PropertyValue = OwnString string | Inherited string

definition objectPrototypeKeys :: "string list" where
  "objectPrototypeKeys =
     [''__defineGetter__'', ''__defineSetter__'', ''__lookupGetter__'', ''__lookupSetter__'',
      ''__proto__'', ''constructor'', ''hasOwnProperty'', ''isPrototypeOf'',
      ''propertyIsEnumerable'', ''toLocaleString'', ''toString'', ''valueOf'']"

definition readProperty :: "(string \<rightharpoonup> string) \<Rightarrow> string \<Rightarrow> PropertyValue option" where
  "readProperty object key =
     (case object key of
        Some v \<Rightarrow> Some (OwnString v)
      | None \<Rightarrow> if key \<in> set objectPrototypeKeys then Some (Inherited key) else None)"

text \<open>
  \<open>hasPermissionForTier\<close> comes from \<open>@snapback/auth/lib/tier-utils\<close>, which is not among the
  sources: it is the parameter \<open>permits\<close>. Its second argument is whatever was read from the
  table of the tools.
\<close>

definition hasPermission :: "(Tier \<Rightarrow> PropertyValue \<Rightarrow> bool) \<Rightarrow> AuthResult \<Rightarrow> PropertyValue \<Rightarrow> bool" where
  "hasPermission permits authResult resourceAction =
     (if \<not> valid authResult then False else permits (auth_tier authResult) resourceAction)"

definition toolPermissions :: "string \<rightharpoonup> string" where
  "toolPermissions =
     [''snapback.analyze_risk'' \<mapsto> ''snapback:analyze'',
      ''snapback.create_snapshot'' \<mapsto> ''snapback:snapshot'',
      ''snapback.list_snapshots'' \<mapsto> ''snapback:snapshot'',
      ''snapback.restore_snapshot'' \<mapsto> ''snapback:snapshot'',
      ''ctx7.resolve-library-id'' \<mapsto> ''snapback:context'',
      ''ctx7.get-library-docs'' \<mapsto> ''snapback:context'']"

text \<open>\<open>!requiredPermission\<close> holds of \<open>undefined\<close> and of the empty string.\<close>

definition hasToolAccess :: "(Tier \<Rightarrow> PropertyValue \<Rightarrow> bool) \<Rightarrow> AuthResult \<Rightarrow> string \<Rightarrow> bool" where
  "hasToolAccess permits authResult toolName =
     (if \<not> valid authResult then False
      else (case readProperty toolPermissions toolName of
              None \<Rightarrow> True
            | Some requiredPermission \<Rightarrow>
                if requiredPermission = OwnString [] then True
                else hasPermission permits authResult requiredPermission))"

subsection \<open>SARIF logs (src/utils/sarif.ts)\<close>

record Region =
  startLine :: "int option"
  startColumn :: "int option"
  endLine :: "int option"
  endColumn :: "int option"

record PhysicalLocation =
  artifactUri :: "string option"
  region :: "Region option"

record SarifResult =
  ruleId :: string
  message_text :: string
  locations :: "PhysicalLocation list option"

record ToolComponent =
  driver_name :: string
  driver_version :: "string option"
  rules :: "string list"

record Run =
  driver :: ToolComponent
  results :: "SarifResult list option"

record SarifLog =
  sarif_version :: string
  sarif_schema :: "string option"
  runs :: "Run list"

definition createSarifLog :: "string \<Rightarrow> string option \<Rightarrow> SarifLog" where
  "createSarifLog toolName toolVersion =
     \<lparr> sarif_version = ''2.1.0'',
       sarif_schema = Some ''https://json.schemastore.org/sarif-2.1.0.json'',
       runs = [\<lparr> driver = \<lparr> driver_name = toolName, driver_version = toolVersion, rules = [] \<rparr>,
                 results = Some [] \<rparr>] \<rparr>"

text \<open>
  \<open>addResult\<close> changes the log it is given and returns it; the model returns the changed log.
  \<open>uri || region\<close> holds for a non-empty \<open>uri\<close> or a \<open>region\<close> that is there.
\<close>

definition addResult ::
  "SarifLog \<Rightarrow> string \<Rightarrow> string \<Rightarrow> string option \<Rightarrow> Region option \<Rightarrow> SarifLog" where
  "addResult sarifLog rule msg uri reg =
     (let log1 = (if runs sarifLog = []
                  then sarifLog\<lparr>runs :=
                         [\<lparr> driver = \<lparr> driver_name = ''snapback'', driver_version = None, rules = [] \<rparr>,
                            results = Some [] \<rparr>]\<rparr>
                  else sarifLog);
          run = hd (runs log1);
          earlier = (case results run of None \<Rightarrow> [] | Some rs \<Rightarrow> rs);
          truthyUri = (case uri of None \<Rightarrow> False | Some u \<Rightarrow> u \<noteq> []);
          result = \<lparr> ruleId = rule, message_text = msg,
                     locations =
                       (if truthyUri \<or> reg \<noteq> None
                        then Some [\<lparr> artifactUri = (if truthyUri then uri else None), region = reg \<rparr>]
                        else None) \<rparr>
      in log1\<lparr>runs := run\<lparr>results := Some (earlier @ [result])\<rparr> # tl (runs log1)\<rparr>)"

subsection \<open>The snapshot manager of the SDK\<close>

text \<open>
  \<open>SnapshotManager\<close> comes from \<open>@snapback/sdk\<close>, which is not among the sources. The tools use
  four of its methods; each is a parameter that takes the state of the outside world (the
  store and the file system, of some type \<open>'w\<close>) and returns what the method resolves or
  rejects with, and the world afterwards.
\<close>

record Snapshot =
  snapshot_id :: string
  timestamp :: int
  meta_name :: "string option"
  snapshot_files :: "string list option"
  fileContents :: "(string \<times> string) list option"

record RestoreResult =
  success :: bool
  errors :: "string list option"
  restoredFiles :: "string list option"

record FileInput =
  input_path :: string
  input_content :: string
  action :: string

record CreateOptions =
  description :: string
  protected :: bool

record 'w SnapshotManager =
  manager_create :: "FileInput list \<Rightarrow> CreateOptions \<Rightarrow> 'w \<Rightarrow> (exn + Snapshot) \<times> 'w"
  manager_list :: "'w \<Rightarrow> (exn + Snapshot list) \<times> 'w"
  manager_get :: "string \<Rightarrow> 'w \<Rightarrow> (exn + Snapshot option) \<times> 'w"
  manager_restore :: "string \<Rightarrow> string option \<Rightarrow> 'w \<Rightarrow> (exn + RestoreResult) \<times> 'w"

subsection \<open>The three tools (src/tools)\<close>

text \<open>
  Each tool function catches what is thrown inside it and returns \<open>{success: false, error}\<close>
  or \<open>{success: true, ...}\<close>.
\<close>

datatype 'a Outcome = Failed string | Succeeded 'a

record CreateSnapshotInput =
  in_filePath :: "string option"
  in_reason :: "string option"
  in_content :: "string option"
  in_files :: "FileEntry list option"

record CreatedSnapshot =
  created_id :: string
  created_timestamp :: int
  created_reason :: string
  created_filePath :: "string option"
  created_fileCount :: nat

text \<open>\<open>x || d\<close> on an optional string: \<open>undefined\<close> and the empty string are falsy.\<close>

fun stringOr :: "string option \<Rightarrow> string \<Rightarrow> string" where
  "stringOr None d = d"
| "stringOr (Some s) d = (if s = [] then d else s)"

text \<open>\<open>x || []\<close> on an optional array.\<close>

fun listOr :: "'a list option \<Rightarrow> 'a list" where
  "listOr None = []"
| "listOr (Some xs) = xs"

definition toFileInputs :: "FileEntry list \<Rightarrow> FileInput list" where
  "toFileInputs fs = map (\<lambda>f. \<lparr> input_path = path f, input_content = content f, action = ''modify'' \<rparr>) fs"

definition filesCount :: "Snapshot \<Rightarrow> nat" where
  "filesCount snapshot = (case snapshot_files snapshot of None \<Rightarrow> 0 | Some fs \<Rightarrow> length fs)"

definition createSnapshot ::
  "'w SnapshotManager \<Rightarrow> CreateSnapshotInput \<Rightarrow> 'w \<Rightarrow> CreatedSnapshot Outcome \<times> 'w" where
  "createSnapshot manager input w =
     (let given = listOr (in_files input);
          fs = (if given \<noteq> [] then given
                else if stringOr (in_content input) [] \<noteq> []
                then [\<lparr> path = stringOr (in_filePath input) ''content.txt'',
                         content = stringOr (in_content input) [] \<rparr>]
                else [])
      in case manager_create manager (toFileInputs fs)
                \<lparr> description = stringOr (in_reason input) ''MCP snapshot'', protected = False \<rparr> w of
           (Inl error, w') \<Rightarrow> (Failed (messageOr error ''Unknown error''), w')
         | (Inr snapshot, w') \<Rightarrow>
             (Succeeded
                \<lparr> created_id = snapshot_id snapshot,
                  created_timestamp = timestamp snapshot,
                  created_reason = stringOr (in_reason input) ''MCP snapshot'',
                  created_filePath = in_filePath input,
                  created_fileCount = filesCount snapshot \<rparr>, w'))"

record SnapshotSummary =
  summary_id :: string
  summary_timestamp :: int
  summary_reason :: string
  summary_fileCount :: nat

definition listSnapshots :: "'w SnapshotManager \<Rightarrow> 'w \<Rightarrow> SnapshotSummary list Outcome \<times> 'w" where
  "listSnapshots manager w =
     (case manager_list manager w of
        (Inl error, w') \<Rightarrow> (Failed (messageOr error ''Unknown error''), w')
      | (Inr snapshots, w') \<Rightarrow>
          (let formatted =
                 map (\<lambda>snapshot.
                        \<lparr> summary_id = snapshot_id snapshot,
                          summary_timestamp = timestamp snapshot,
                          summary_reason = stringOr (meta_name snapshot) ''Snapshot'',
                          summary_fileCount = filesCount snapshot \<rparr>) snapshots
           in (Succeeded (sortWith (\<lambda>a b. summary_timestamp b - summary_timestamp a) formatted), w')))"

record RestoredSnapshot =
  restored_id :: string
  restored_timestamp :: int
  restored_reason :: string
  restored_fileCount :: nat
  restored_restoredFiles :: "string list option"
  restored_fileContents :: "(string \<times> string) list option"

text \<open>
  \<open>restoreSnapshot(snapshotId, targetPath?)\<close>: the snapshot is looked up, then
  \<open>manager.restore(snapshotId, targetPath)\<close> is called with the optional path as it came.
\<close>

definition restoreSnapshot ::
  "'w SnapshotManager \<Rightarrow> string \<Rightarrow> string option \<Rightarrow> 'w \<Rightarrow> RestoredSnapshot Outcome \<times> 'w" where
  "restoreSnapshot manager snapshotId targetPath w =
     (case manager_get manager snapshotId w of
        (Inl error, w') \<Rightarrow> (Failed (messageOr error ''Unknown error''), w')
      | (Inr None, w') \<Rightarrow> (Failed (''Snapshot with ID '' @ snapshotId @ '' not found''), w')
      | (Inr (Some snapshot), w') \<Rightarrow>
          (case manager_restore manager snapshotId targetPath w' of
             (Inl error, w'') \<Rightarrow> (Failed (messageOr error ''Unknown error''), w'')
           | (Inr result, w'') \<Rightarrow>
               if \<not> success result
               then (Failed (stringOr (map_option (joinWith '', '') (errors result)) ''Restore failed''), w'')
               else (Succeeded
                       \<lparr> restored_id = snapshot_id snapshot,
                         restored_timestamp = timestamp snapshot,
                         restored_reason = stringOr (meta_name snapshot) ''Snapshot'',
                         restored_fileCount = filesCount snapshot,
                         restored_restoredFiles = restoredFiles result,
                         restored_fileContents = fileContents snapshot \<rparr>, w'')))"

subsection \<open>The tool call handler (the \<open>CallToolRequestSchema\<close> handler of the server)\<close>

datatype Payload =
    SarifPayload SarifLog
  | SnapshotsPayload "SnapshotSummary list"
  | RestoredPayload RestoredSnapshot

datatype ContentItem = TextContent string | JsonContent Payload

text \<open>
  A response: the content array, \<open>isError\<close> (\<open>False\<close> where the source leaves it out), and
  the \<open>error\<close> object \<open>{message, code}\<close> where there is one.
\<close>

record ToolResponse =
  response_content :: "ContentItem list"
  isError :: bool
  error_object :: "(string \<times> string) option"

text \<open>An argument of a tool call, as far as the handler reads it.\<close>

datatype ArgValue = StringArg string | NumberArg number | BoolArg bool | NullArg | OtherArg

text \<open>The arguments of a call: missing, or an object from names to values.\<close>

type_synonym Args = "(string \<rightharpoonup> ArgValue) option"

text \<open>
  What the handler takes from outside: the permission table of \<open>@snapback/auth\<close>,
  \<open>validateToolArgs\<close> of \<open>@snapback/core\<close> (the error response or the parsed input), the
  snapshot manager, the message of the \<open>ZodError\<close> that \<open>parse\<close> throws, the mode and the log
  id of \<open>sanitizeError\<close>, and \<open>Date.prototype.toLocaleString\<close>.
\<close>

record 'w Environment =
  permits :: "Tier \<Rightarrow> PropertyValue \<Rightarrow> bool"
  validateToolArgs :: "Args \<Rightarrow> ToolResponse + CreateSnapshotInput"
  manager :: "'w SnapshotManager"
  zodMessage :: "Args \<Rightarrow> string"
  isDevelopment :: bool
  logId :: string
  toLocaleString :: "int \<Rightarrow> string"

datatype SnapshotTool = CreateSnapshotTool | ListSnapshotsTool | RestoreSnapshotTool

fun toolName :: "SnapshotTool \<Rightarrow> string" where
  "toolName CreateSnapshotTool = ''snapback.create_snapshot''"
| "toolName ListSnapshotsTool = ''snapback.list_snapshots''"
| "toolName RestoreSnapshotTool = ''snapback.restore_snapshot''"

fun sarifToolName :: "SnapshotTool \<Rightarrow> string" where
  "sarifToolName CreateSnapshotTool = ''snapback-create-snapshot''"
| "sarifToolName ListSnapshotsTool = ''snapback-list-snapshots''"
| "sarifToolName RestoreSnapshotTool = ''snapback-restore-snapshot''"

text \<open>The cross mark (U+274C) and the check mark (U+2705) of the texts, as UTF-8 bytes.\<close>

definition crossMark :: string where
  "crossMark = [CHR 0xE2, CHR 0x9D, CHR 0x8C]"

definition checkMark :: string where
  "checkMark = [CHR 0xE2, CHR 0x9C, CHR 0x85]"

definition accessDenied :: "string \<Rightarrow> ToolResponse" where
  "accessDenied name =
     \<lparr> response_content =
         [TextContent (crossMark @ '' Access denied. You don'' @ [CHR 0x27]
            @ ''t have permission to use the '' @ name @ '' tool.'')],
       isError = True, error_object = None \<rparr>"

definition proRequiredMessage :: string where
  "proRequiredMessage = ''This tool requires a Pro subscription. Upgrade at https://snapback.dev/pricing''"

text \<open>The answer of the three tier gates; they differ in the tool name of the SARIF log only.\<close>

definition proRequired :: "SnapshotTool \<Rightarrow> ToolResponse" where
  "proRequired tool =
     (let sarifLog = addResult (createSarifLog (sarifToolName tool) (Some ''1.0.0''))
                       ''pro-tool-restricted'' proRequiredMessage None None
      in \<lparr> response_content =
             [JsonContent (SarifPayload sarifLog), TextContent (crossMark @ '' '' @ proRequiredMessage)],
           isError = False, error_object = None \<rparr>)"

definition failedResponse :: "string \<Rightarrow> string \<Rightarrow> ToolResponse" where
  "failedResponse what error =
     \<lparr> response_content = [TextContent (crossMark @ '' Failed to '' @ what @ '': '' @ error)],
       isError = True, error_object = None \<rparr>"

text \<open>The outer \<open>catch\<close>: \<open>sanitizeError\<close> and the error response built from it.\<close>

definition sanitizeError :: "'w Environment \<Rightarrow> exn \<Rightarrow> string \<times> string \<times> string" where
  "sanitizeError env error =
     (if isDevelopment env
      then ((case error of Error m \<Rightarrow> m | SecurityError m \<Rightarrow> m | NonError s \<Rightarrow> s),
            ''INTERNAL_ERROR'', logId env)
      else (''An internal error occurred. Contact support with log ID.'', ''INTERNAL_ERROR'', logId env))"

definition errorResponse :: "'w Environment \<Rightarrow> exn \<Rightarrow> ToolResponse" where
  "errorResponse env error =
     (case sanitizeError env error of
        (msg, errorCode, lid) \<Rightarrow>
          \<lparr> response_content = [TextContent (msg @ '' (Log ID: '' @ lid @ '')'')],
            isError = True, error_object = Some (msg, errorCode) \<rparr>)"

text \<open>A count in a template literal: its decimal digits.\<close>

fun digits :: "nat \<Rightarrow> nat \<Rightarrow> string" where
  "digits 0 n = []"
| "digits (Suc fuel) n =
     (if n < 10 then [char_of (48 + n)] else digits fuel (n div 10) @ [char_of (48 + n mod 10)])"

definition showNat :: "nat \<Rightarrow> string" where
  "showNat n = digits (Suc n) n"

definition newline :: string where
  "newline = [CHR 0x0A]"

text \<open>
  The three tools behind their tier gates. \<open>addSnapshot\<close> and \<open>storeSnapshotContent\<close> only
  write to the console and are left out.
\<close>

definition serveCreateSnapshot :: "'w Environment \<Rightarrow> Args \<Rightarrow> 'w \<Rightarrow> ToolResponse \<times> 'w" where
  "serveCreateSnapshot env args w =
     (case validateToolArgs env args of
        Inl response \<Rightarrow> (response, w)
      | Inr input \<Rightarrow>
          (case createSnapshot (manager env) input w of
             (Failed error, w') \<Rightarrow> (failedResponse ''create snapshot'' error, w')
           | (Succeeded snapshot, w') \<Rightarrow>
               (\<lparr> response_content =
                    [TextContent
                       (checkMark @ '' Snapshot created successfully'' @ newline @ newline
                        @ ''ID: '' @ created_id snapshot @ newline
                        @ ''Timestamp: '' @ toLocaleString env (created_timestamp snapshot) @ newline
                        @ ''Reason: '' @ created_reason snapshot @ newline
                        @ ''File Count: '' @ showNat (created_fileCount snapshot) @ newline @ newline
                        @ ''You can restore this snapshot using its ID.'')],
                  isError = False, error_object = None \<rparr>, w')))"

definition serveListSnapshots :: "'w Environment \<Rightarrow> 'w \<Rightarrow> ToolResponse \<times> 'w" where
  "serveListSnapshots env w =
     (case listSnapshots (manager env) w of
        (Failed error, w') \<Rightarrow> (failedResponse ''list snapshots'' error, w')
      | (Succeeded snapshots, w') \<Rightarrow>
          (\<lparr> response_content = [JsonContent (SnapshotsPayload snapshots)],
             isError = False, error_object = None \<rparr>, w'))"

text \<open>
  \<open>z.object({ snapshotId: z.string() }).parse(args)\<close>: the string under \<open>snapshotId\<close>; every
  other key of the object is dropped. Anything else throws.
\<close>

definition parseSnapshotId :: "'w Environment \<Rightarrow> Args \<Rightarrow> exn + string" where
  "parseSnapshotId env args =
     (case args of
        None \<Rightarrow> Inl (Error (zodMessage env args))
      | Some object \<Rightarrow>
          (case object ''snapshotId'' of
             Some (StringArg snapshotId) \<Rightarrow> Inr snapshotId
           | _ \<Rightarrow> Inl (Error (zodMessage env args))))"

definition serveRestoreSnapshot :: "'w Environment \<Rightarrow> Args \<Rightarrow> 'w \<Rightarrow> ToolResponse \<times> 'w" where
  "serveRestoreSnapshot env args w =
     (case parseSnapshotId env args of
        Inl error \<Rightarrow> (errorResponse env error, w)
      | Inr snapshotId \<Rightarrow>
          (case restoreSnapshot (manager env) snapshotId None w of
             (Failed error, w') \<Rightarrow> (failedResponse ''restore snapshot'' error, w')
           | (Succeeded snapshot, w') \<Rightarrow>
               (\<lparr> response_content = [JsonContent (RestoredPayload snapshot)],
                  isError = False, error_object = None \<rparr>, w')))"

fun serve :: "'w Environment \<Rightarrow> SnapshotTool \<Rightarrow> Args \<Rightarrow> 'w \<Rightarrow> ToolResponse \<times> 'w" where
  "serve env CreateSnapshotTool args w = serveCreateSnapshot env args w"
| "serve env ListSnapshotsTool args w = serveListSnapshots env w"
| "serve env RestoreSnapshotTool args w = serveRestoreSnapshot env args w"

text \<open>
  The handler, for a call of one of the three snapshot tools by the principal that
  \<open>authenticate\<close> returned: the access check, the tier gate of the tool, the tool.
\<close>

definition callTool ::
  "'w Environment \<Rightarrow> AuthResult \<Rightarrow> SnapshotTool \<Rightarrow> Args \<Rightarrow> 'w \<Rightarrow> ToolResponse \<times> 'w" where
  "callTool env authResult tool args w =
     (if \<not> hasToolAccess (permits env) authResult (toolName tool)
      then (accessDenied (toolName tool), w)
      else if auth_tier authResult \<noteq> Pro
      then (proRequired tool, w)
      else serve env tool args w)"

subsection \<open>The manager as the specification describes it\<close>

text \<open>
  Modelled from the spec: \<open>SnapshotManager.get\<close> and \<open>SnapshotManager.restore\<close> of
  \<open>@snapback/sdk\<close>, whose code is not among the sources. "\<open>restore(id, targetPath?)\<close>: when
  \<open>targetPath\<close> is absent, restore is metadata-only (no file-system mutation); when present,
  each file is written atomically (write-temp, rename) under \<open>targetPath\<close>, and every
  destination path is run through the path validator against \<open>targetPath\<close> as root. Partial
  failures are reported in \<open>errors\<close>; already-written files are not rolled back."
  The world is the store of snapshots and the files with their contents.
\<close>

record World =
  store :: "Snapshot list"
  fileSystem :: "string \<rightharpoonup> string"

definition sdkGet :: "string \<Rightarrow> World \<Rightarrow> (exn + Snapshot option) \<times> World" where
  "sdkGet snapshotId w = (Inr (find (\<lambda>s. snapshot_id s = snapshotId) (store w)), w)"

text \<open>One file: validate the destination, write a temporary file beside it, rename it.\<close>

definition sdkWriteFile ::
  "Host \<Rightarrow> string \<Rightarrow> string \<times> string \<Rightarrow> RestoreResult \<times> World \<Rightarrow> RestoreResult \<times> World" where
  "sdkWriteFile h targetPath file acc =
     (case acc of
        (result, w) \<Rightarrow>
          (case fst (validateFilePath h (fst file) targetPath) of
             Inl error \<Rightarrow>
               (result\<lparr> success := False,
                        errors := Some (listOr (errors result) @ [fst file @ '': '' @ messageOr error []]) \<rparr>,
                w)
           | Inr destination \<Rightarrow>
               (let written = w\<lparr>fileSystem := (fileSystem w)(destination @ ''.tmp'' \<mapsto> snd file)\<rparr>;
                    renamed = written\<lparr>fileSystem :=
                                ((fileSystem written)(destination @ ''.tmp'' := None))(destination \<mapsto> snd file)\<rparr>
                in (result\<lparr>restoredFiles := Some (listOr (restoredFiles result) @ [destination])\<rparr>,
                    renamed))))"

definition sdkRestore ::
  "Host \<Rightarrow> string \<Rightarrow> string option \<Rightarrow> World \<Rightarrow> (exn + RestoreResult) \<times> World" where
  "sdkRestore h snapshotId targetPath w =
     (case find (\<lambda>s. snapshot_id s = snapshotId) (store w) of
        None \<Rightarrow>
          (Inr \<lparr> success = False, errors = Some [''Snapshot not found''], restoredFiles = Some [] \<rparr>, w)
      | Some snapshot \<Rightarrow>
          (case targetPath of
             None \<Rightarrow> (Inr \<lparr> success = True, errors = Some [], restoredFiles = Some [] \<rparr>, w)
           | Some target \<Rightarrow>
               (case fold (sdkWriteFile h target)
                       (listOr (fileContents snapshot))
                       (\<lparr> success = True, errors = Some [], restoredFiles = Some [] \<rparr>, w) of
                  (result, w') \<Rightarrow> (Inr result, w'))))"

text \<open>A manager with these two methods; its \<open>create\<close> and \<open>list\<close> stay parameters.\<close>

definition sdkManager ::
  "Host \<Rightarrow> (FileInput list \<Rightarrow> CreateOptions \<Rightarrow> World \<Rightarrow> (exn + Snapshot) \<times> World)
     \<Rightarrow> (World \<Rightarrow> (exn + Snapshot list) \<times> World) \<Rightarrow> World SnapshotManager" where
  "sdkManager h create list =
     \<lparr> manager_create = create, manager_list = list,
       manager_get = sdkGet, manager_restore = sdkRestore h \<rparr>"

section \<open>Sample inputs\<close>

text \<open>Concrete inputs, used where a property is run on an example.\<close>

definition upstreamSample :: "number field \<Rightarrow> APIResult" where
  "upstreamSample c =
     \<lparr> api_riskLevel = Val ''medium'', api_confidence = c, api_issues = Missing,
       api_analysisTimeMs = Val (Finite 12), api_recommendations = Val [''rotate the key''] \<rparr>"

definition stubGuardian :: "string \<Rightarrow> exn + AnalysisResult" where
  "stubGuardian c =
     Inr \<lparr> riskLevel = RiskLow, confidence = Finite (1/2), issues = [], executionTime = Finite 0,
           upgradePrompt = False, recommendations = [] \<rparr>"

definition failingClient :: "AnalysisRequest \<Rightarrow> exn + APIResult" where
  "failingClient request = Inl (Error ''API error: 500 Internal Server Error'')"

definition failed :: "int \<Rightarrow> int \<times> int \<times> (exn + unit)" where
  "failed t = (t, t + 1, Inl (Error ''timeout''))"

definition succeeded :: "int \<Rightarrow> int \<times> int \<times> (exn + unit)" where
  "succeeded t = (t, t + 1, Inr ())"

definition fileAx :: FileEntry where
  "fileAx = \<lparr>path = ''a'', content = ''x''\<rparr>"

definition fileAy :: FileEntry where
  "fileAy = \<lparr>path = ''a'', content = ''y''\<rparr>"

definition fileBy :: FileEntry where
  "fileBy = \<lparr>path = ''B'', content = ''y''\<rparr>"

definition fileLowerBy :: FileEntry where
  "fileLowerBy = \<lparr>path = ''b'', content = ''y''\<rparr>"

text \<open>
  A POSIX host with the directories \<open>/\<close>, \<open>/etc\<close> and \<open>/ws\<close>, the files \<open>/etc/passwd\<close> and
  \<open>/ws/b\<close>, no symbolic links, and telemetry initialised.
\<close>

definition sampleFiles :: "string list" where
  "sampleFiles = [''/'', ''/etc'', ''/etc/passwd'', ''/ws'', ''/ws/b'']"

definition sampleHost :: Host where
  "sampleHost =
     \<lparr> platform = ''linux'',
       realpathSync = (\<lambda>p. if p \<in> set sampleFiles then Inr p
                            else Inl ''ENOENT: no such file or directory''),
       existsSync = (\<lambda>p. p \<in> set sampleFiles),
       telemetryClient = True \<rparr>"


text \<open>
  A permission table that lets every tier use every permission, principals of the three
  tiers, and a world with one snapshot of one file and an empty file system, served by the
  manager of the specification on the sample host.
\<close>

definition everyTierPermitted :: "Tier \<Rightarrow> PropertyValue \<Rightarrow> bool" where
  "everyTierPermitted t resourceAction = True"

definition principal :: "Tier \<Rightarrow> AuthResult" where
  "principal t =
     \<lparr> valid = True, auth_tier = t, scopes = Some [], auth_userId = Some ''user-1'',
       organizationId = None, auth_error = None \<rparr>"

definition sampleSnapshot :: Snapshot where
  "sampleSnapshot =
     \<lparr> snapshot_id = ''s1'', timestamp = 1700000000000, meta_name = Some ''before refactor'',
       snapshot_files = Some [''a.txt''], fileContents = Some [(''a.txt'', ''hi'')] \<rparr>"

definition sampleWorld :: World where
  "sampleWorld = \<lparr> store = [sampleSnapshot], fileSystem = Map.empty \<rparr>"

definition sampleEnvironment :: "World Environment" where
  "sampleEnvironment =
     \<lparr> permits = everyTierPermitted,
       validateToolArgs =
         (\<lambda>args. Inr \<lparr> in_filePath = None, in_reason = None, in_content = None, in_files = None \<rparr>),
       manager = sdkManager sampleHost
         (\<lambda>inputs options w. (Inl (Error ''storage unavailable''), w))
         (\<lambda>w. (Inr (store w), w)),
       zodMessage = (\<lambda>args. ''Required''),
       isDevelopment = False,
       logId = ''ERR-1'',
       toLocaleString = (\<lambda>t. ''11/14/2023, 10:13:20 PM'') \<rparr>"

definition restoreArguments :: "string \<rightharpoonup> ArgValue" where
  "restoreArguments = [''snapshotId'' \<mapsto> StringArg ''s1'', ''targetPath'' \<mapsto> StringArg ''/ws'']"

text \<open>
  A traversal path with a directory name of a hundred letters \<open>e\<close> with an acute accent,
  each one code unit and two bytes of UTF-8.
\<close>

definition accentedPath :: string where
  "accentedPath = ''../'' @ replicate 100 (CHR 0xE9)"




section \<open>Properties of the analysis router\<close>

subsection \<open>Risk levels\<close>

lemma toLowerChar_idem: "toLowerChar (toLowerChar c) = toLowerChar c"
proof -
  have "of_char (char_of (n + 32 :: nat)) = n + 32" if "n + 32 < 256" for n :: nat
    using that by simp
  then show ?thesis
    by (auto simp: toLowerChar_def Let_def)
qed

lemma toLowerCase_idem: "toLowerCase (toLowerCase s) = toLowerCase s"
  by (simp add: toLowerCase_def toLowerChar_idem)

text \<open>
  C4, as the code has it: \<open>low\<close>, \<open>medium\<close>, \<open>high\<close> and \<open>critical\<close> map as the claim says, in
  any letter case; \<open>safe\<close> has no case of its own in the \<open>switch\<close> and maps to \<open>none\<close> with
  every other value, a missing one included.
\<close>

theorem mapRiskLevel_table:
  "mapRiskLevel (Val ''low'') = RiskLow
   \<and> mapRiskLevel (Val ''medium'') = RiskMedium
   \<and> mapRiskLevel (Val ''high'') = RiskHigh
   \<and> mapRiskLevel (Val ''critical'') = RiskHigh
   \<and> mapRiskLevel (Val ''safe'') = RiskNone
   \<and> mapRiskLevel Missing = RiskNone
   \<and> mapRiskLevel Null = RiskNone
   \<and> mapRiskLevel (Val s) = mapRiskLevel (Val (toLowerCase s))
   \<and> (toLowerCase s \<notin> {''low'', ''medium'', ''high'', ''critical''}
        \<longrightarrow> mapRiskLevel (Val s) = RiskNone)"
  by (simp add: toLowerCase_idem) (simp add: toLowerCase_def toLowerChar_def)

theorem mapRiskLevel_table_witness:
  "toLowerCase ''Unknown'' \<notin> {''low'', ''medium'', ''high'', ''critical''}
   \<and> mapRiskLevel (Val ''Unknown'') = RiskNone
   \<and> mapRiskLevel (Val ''CRITICAL'') = mapRiskLevel (Val (toLowerCase ''CRITICAL''))"
  using mapRiskLevel_table [of "''Unknown''"] mapRiskLevel_table [of "''CRITICAL''"]
  by (simp add: toLowerCase_def toLowerChar_def)

text \<open>C4 as stated fails: the upstream level \<open>safe\<close> is not mapped to \<open>low\<close>.\<close>

theorem mapRiskLevel_safe_counterexample:
  "mapRiskLevel (Val ''safe'') \<noteq> RiskLow"
  by (simp add: toLowerCase_def toLowerChar_def)

subsection \<open>Confidence\<close>

lemma clamp_Finite:
  "Math_min (Finite 1) (Math_max (Finite 0) (Finite x)) = Finite (min 1 (max 0 x))"
  by (simp add: Math_min_def Math_max_def min_def max_def)

lemma clamp_range:
  "\<exists>x. Math_min (Finite 1) (Math_max (Finite 0) n) = Finite x \<and> 0 \<le> x \<and> x \<le> 1" if "n \<noteq> NaN"
  using that by (cases n) (auto simp: Math_min_def Math_max_def)

lemma numberOr_not_NaN: "d \<noteq> NaN \<Longrightarrow> numberOr f d \<noteq> NaN"
  by (cases f) auto

text \<open>
  C10: a confidence that is missing, \<open>null\<close> or \<open>0\<close> becomes \<open>0.5\<close> (the \<open>||\<close> runs before the
  clamp), every other finite confidence is clamped into \<open>[0, 1]\<close>, the mapped confidence is
  always a finite number of \<open>[0, 1]\<close>, and \<open>upgradePrompt\<close> is \<open>false\<close>.
\<close>

theorem mapAPIResult_confidence:
  "(api_confidence r = Missing \<or> api_confidence r = Null \<or> api_confidence r = Val (Finite 0)
      \<longrightarrow> confidence (mapAPIResult r) = Finite (1/2))
   \<and> (x \<noteq> 0 \<and> api_confidence r = Val (Finite x)
      \<longrightarrow> confidence (mapAPIResult r) = Finite (min 1 (max 0 x)))
   \<and> (\<exists>y. confidence (mapAPIResult r) = Finite y \<and> 0 \<le> y \<and> y \<le> 1)
   \<and> upgradePrompt (mapAPIResult r) = False"
proof -
  have a: "confidence (mapAPIResult r) = Finite (1/2)"
    if "api_confidence r = Missing \<or> api_confidence r = Null \<or> api_confidence r = Val (Finite 0)"
    using that by (auto simp: mapAPIResult_def Math_min_def Math_max_def)
  have b: "confidence (mapAPIResult r) = Finite (min 1 (max 0 x))"
    if "x \<noteq> 0" "api_confidence r = Val (Finite x)"
    using that by (simp add: mapAPIResult_def clamp_Finite)
  have c: "\<exists>y. confidence (mapAPIResult r) = Finite y \<and> 0 \<le> y \<and> y \<le> 1"
    using clamp_range [OF numberOr_not_NaN, of "Finite (1/2)" "api_confidence r"]
    by (simp add: mapAPIResult_def)
  have d: "upgradePrompt (mapAPIResult r) = False"
    by (simp add: mapAPIResult_def)
  from a b c d show ?thesis by blast
qed

theorem mapAPIResult_confidence_witness:
  "api_confidence (upstreamSample (Val (Finite 0))) = Val (Finite 0)
   \<and> confidence (mapAPIResult (upstreamSample (Val (Finite 0)))) = Finite (1/2)
   \<and> (7::real) \<noteq> 0 \<and> api_confidence (upstreamSample (Val (Finite 7))) = Val (Finite 7)
   \<and> confidence (mapAPIResult (upstreamSample (Val (Finite 7)))) = Finite 1"
  using mapAPIResult_confidence [of "upstreamSample (Val (Finite 0))" 1]
    mapAPIResult_confidence [of "upstreamSample (Val (Finite 7))" 7]
  by (simp add: upstreamSample_def)

subsection \<open>Free tier\<close>

text \<open>
  C5: with tier \<open>free\<close>, or no user context, \<open>analyze\<close> never calls the upstream client and
  leaves the router as it was; what the local analyzer returns comes back with \<open>upgradePrompt\<close>
  set and exactly one recommendation appended, the one about upgrading; what it throws is
  thrown on.
\<close>

theorem analyze_free_local_only:
  assumes "userContext = None \<or> (\<exists>u. userContext = Some u \<and> tier u = FreeTier)"
  shows "snd (snd (analyze r enter fail c userContext)) = 0
    \<and> fst (snd (analyze r enter fail c userContext)) = r
    \<and> (\<forall>result. guardian r c = Inr result \<longrightarrow>
          fst (analyze r enter fail c userContext) =
            Inr (result\<lparr> upgradePrompt := True,
                   recommendations := recommendations result @
                     [lightBulb @ '' Free tier users can upgrade to Pro for advanced ML-based analysis for advanced analysis capabilities.''] \<rparr>))
    \<and> (\<forall>error. guardian r c = Inl error \<longrightarrow>
          fst (analyze r enter fail c userContext) = Inl error)"
  using assms by (auto simp: analyze_def addUpgradePrompt_def upgradeMessage_def)

theorem analyze_free_local_only_witness:
  "snd (snd (analyze (newAnalysisRouter stubGuardian (Some failingClient) 0) 5 6 ''eval(x)'' None)) = 0
   \<and> fst (analyze (newAnalysisRouter stubGuardian (Some failingClient) 0) 5 6 ''eval(x)'' None) =
       Inr \<lparr> riskLevel = RiskLow, confidence = Finite (1/2), issues = [], executionTime = Finite 0,
             upgradePrompt = True,
             recommendations =
               [lightBulb @ '' Free tier users can upgrade to Pro for advanced ML-based analysis for advanced analysis capabilities.''] \<rparr>"
  using analyze_free_local_only [of None "newAnalysisRouter stubGuardian (Some failingClient) 0" 5 6 "''eval(x)''"]
  by (simp add: newAnalysisRouter_def stubGuardian_def)

subsection \<open>Circuit breaker, closed\<close>

lemma execute_closed_success:
  "state cb = CLOSED \<Longrightarrow> execute cb enter fail (Inr v) = (Inr v, cb, True)"
  by (simp add: execute_def onSuccess_def)

lemma execute_closed_failure:
  "state cb = CLOSED \<Longrightarrow>
   execute cb enter fail (Inl e) =
     (Inl e,
      (if failureCount cb + 1 \<ge> failureThreshold cb
       then cb\<lparr>failureCount := failureCount cb + 1, state := OPEN, nextAttemptAt := fail + timeout cb\<rparr>
       else cb\<lparr>failureCount := failureCount cb + 1\<rparr>),
      True)"
  by (simp add: execute_def onFailure_def Let_def)

lemma executeAll_closed:
  "state cb = CLOSED \<Longrightarrow>
   failureCount cb + int (length (filter isFailure calls)) < failureThreshold cb \<Longrightarrow>
   executeAll cb calls = cb\<lparr>failureCount := failureCount cb + int (length (filter isFailure calls))\<rparr>"
proof (induction calls arbitrary: cb)
  case Nil
  then show ?case by simp
next
  case (Cons call calls)
  obtain enter fail outcome where call: "call = (enter, fail, outcome)"
    by (cases call) auto
  show ?case
  proof (cases outcome)
    case (Inl e)
    let ?cb = "cb\<lparr>failureCount := failureCount cb + 1\<rparr>"
    from Cons.prems Inl call have small: "\<not> failureCount cb + 1 \<ge> failureThreshold cb"
      by simp
    have "executeAll cb (call # calls) = executeAll ?cb calls"
      using Cons.prems(1) small by (simp add: call Inl execute_closed_failure)
    also have "\<dots> = ?cb\<lparr>failureCount := failureCount ?cb + int (length (filter isFailure calls))\<rparr>"
      using Cons.prems Inl call by (intro Cons.IH) auto
    finally show ?thesis
      using Inl call by simp
  next
    case (Inr v)
    have "executeAll cb (call # calls) = executeAll cb calls"
      using Cons.prems(1) by (simp add: call Inr execute_closed_success)
    then show ?thesis
      using Cons.IH [of cb] Cons.prems Inr call by simp
  qed
qed

lemma executeAll_append: "executeAll cb (xs @ ys) = executeAll (executeAll cb xs) ys"
  by (induction xs arbitrary: cb) auto

text \<open>
  C3, as the code has it. A closed breaker admits every call. A success leaves it exactly as it
  was, the failure counter included: the counter is only reset when a half-open breaker
  closes. A failure adds one to the counter; the breaker opens when the counter, that is the
  number of failures since that reset, reaches the threshold, with or without successes in
  between, and then \<open>nextAttemptAt\<close> is the time of the failure plus the recovery window.
\<close>

theorem closed_breaker_counts_failures:
  fixes outcome :: "exn + 'a" and v :: 'a and calls :: "(int \<times> int \<times> (exn + 'a)) list"
  assumes "state cb = CLOSED"
  shows "snd (snd (execute cb enter fail outcome)) = True
    \<and> fst (snd (execute cb enter fail (Inr v))) = cb
    \<and> failureCount (fst (snd (execute cb enter fail (Inl e)))) = failureCount cb + 1
    \<and> (failureCount cb + 1 < failureThreshold cb \<longrightarrow>
         state (fst (snd (execute cb enter fail (Inl e)))) = CLOSED)
    \<and> (failureCount cb + 1 \<ge> failureThreshold cb \<longrightarrow>
         state (fst (snd (execute cb enter fail (Inl e)))) = OPEN
         \<and> nextAttemptAt (fst (snd (execute cb enter fail (Inl e)))) = fail + timeout cb)
    \<and> (failureCount cb + int (length (filter isFailure calls)) < failureThreshold cb \<longrightarrow>
         state (executeAll cb calls) = CLOSED
         \<and> failureCount (executeAll cb calls) = failureCount cb + int (length (filter isFailure calls)))
    \<and> (failureCount cb + int (length (filter isFailure calls)) + 1 = failureThreshold cb \<longrightarrow>
         state (executeAll cb (calls @ [(enter, fail, Inl e)])) = OPEN
         \<and> nextAttemptAt (executeAll cb (calls @ [(enter, fail, Inl e)])) = fail + timeout cb)"
proof -
  have admitted: "snd (snd (execute cb enter fail outcome)) = True"
    using assms by (cases outcome) (simp_all add: execute_closed_success execute_closed_failure)
  have run: "state (executeAll cb calls) = CLOSED
      \<and> failureCount (executeAll cb calls) = failureCount cb + int (length (filter isFailure calls))"
    if "failureCount cb + int (length (filter isFailure calls)) < failureThreshold cb"
    using executeAll_closed [OF assms that] assms by simp
  have opens: "state (executeAll cb (calls @ [(enter, fail, Inl e)])) = OPEN
      \<and> nextAttemptAt (executeAll cb (calls @ [(enter, fail, Inl e)])) = fail + timeout cb"
    if last: "failureCount cb + int (length (filter isFailure calls)) + 1 = failureThreshold cb"
  proof -
    let ?n = "int (length (filter isFailure calls))"
    have before: "executeAll cb calls = cb\<lparr>failureCount := failureCount cb + ?n\<rparr>"
      using executeAll_closed [OF assms, of calls] last by simp
    let ?cb = "cb\<lparr>failureCount := failureCount cb + ?n\<rparr>"
    have "state ?cb = CLOSED" and "failureCount ?cb + 1 \<ge> failureThreshold ?cb"
      using last assms by simp_all
    then have "fst (snd (execute ?cb enter fail (Inl e :: exn + 'a))) =
        ?cb\<lparr>failureCount := failureCount ?cb + 1, state := OPEN, nextAttemptAt := fail + timeout ?cb\<rparr>"
      by (simp only: execute_closed_failure if_True fst_conv snd_conv)
    then show ?thesis
      by (simp add: executeAll_append before)
  qed
  show ?thesis
    using assms admitted run opens by (simp add: execute_closed_success execute_closed_failure)
qed

theorem closed_breaker_counts_failures_witness:
  "state (newCircuitBreaker 0) = CLOSED
   \<and> fst (snd (execute (newCircuitBreaker 0) 10 11 (Inr ()))) = newCircuitBreaker 0
   \<and> failureCount (newCircuitBreaker 0) + int (length (filter isFailure [failed 10, succeeded 20, failed 30])) + 1
       = failureThreshold (newCircuitBreaker 0)
   \<and> state (executeAll (newCircuitBreaker 0) ([failed 10, succeeded 20, failed 30] @ [(40, 41, Inl (Error ''timeout''))])) = OPEN
   \<and> nextAttemptAt (executeAll (newCircuitBreaker 0) ([failed 10, succeeded 20, failed 30] @ [(40, 41, Inl (Error ''timeout''))])) = 30041"
proof -
  have closed: "state (newCircuitBreaker 0) = CLOSED"
    by (simp add: newCircuitBreaker_def)
  show ?thesis
    using closed_breaker_counts_failures [OF closed, of 40 41 "Inr ()" "()" "Error ''timeout''"
        "[failed 10, succeeded 20, failed 30]"]
    by (simp add: newCircuitBreaker_def failed_def succeeded_def execute_def onSuccess_def
        onFailure_def Let_def)
qed

text \<open>
  C3 as stated fails twice over: after a failure and a success the counter is 1, not 0, and
  three failures that are never consecutive open the breaker.
\<close>

theorem breaker_interleaved_failures_counterexample:
  "failureCount (executeAll (newCircuitBreaker 0) [failed 10, succeeded 20]) \<noteq> 0
   \<and> state (executeAll (newCircuitBreaker 0)
        [failed 10, succeeded 20, failed 30, succeeded 40, failed 50]) = OPEN"
  by (simp add: newCircuitBreaker_def failed_def succeeded_def execute_def onFailure_def
      onSuccess_def Let_def)

section \<open>Properties of the path validator\<close>

subsection \<open>Rejections\<close>


























subsection \<open>What the validator returns and what it refuses\<close>








lemma plainFileName_config: "plainFileName ''config..json''"
  by code_simp

lemma sampleHost_config:
  "join [''/ws'', ''config..json''] = ''/ws/config..json''"
  "dirname ''/ws/config..json'' = ''/ws''"
  "basename ''/ws/config..json'' = ''config..json''"
  by code_simp+



subsection \<open>What a rejection tells the caller and the sink\<close>



lemma sampleHost_accented:
  "validateFilePath sampleHost accentedPath ''/ws'' =
     (Inl (SecurityError ''Path traversal not allowed''),
      [(''security.violation'',
        [(''violationType'', ''path_validation_failed''), (''filePath'', take 100 accentedPath),
         (''reason'', ''path_traversal'')])])"
  by code_simp



section \<open>Properties of the snapshot hash\<close>

subsection \<open>The digest on known inputs\<close>

lemma blake3Hash_empty:
  "blake3Hash '''' = ''e3b0c44298fc1c149afbf4c8996fb92427ae41e4649b934ca495991b7852b855''"
  by code_simp

lemma blake3Hash_abc:
  "blake3Hash ''abc'' = ''ba7816bf8f01cfea414140de5dae2223b00361a396177a9cb410ff61f20015ad''"
  by code_simp

lemma blake3Hash_x:
  "blake3Hash ''x'' = ''2d711642b726b04401627ca9fbac32f5c8530fb1903cc4db02258717921a4881''"
  by code_simp

lemma blake3Hash_y:
  "blake3Hash ''y'' = ''a1fce4363854ff888cff4b8e7875d600c2682390412a8cf79b37d0b11148b0fa''"
  by code_simp

subsection \<open>Sorting with a comparator\<close>

lemma set_insertBy: "set (insertBy compare x xs) = insert x (set xs)"
  by (induction xs) auto

lemma mset_insertBy: "mset (insertBy compare x xs) = add_mset x (mset xs)"
  by (induction xs) auto

lemma sortWith_Cons: "sortWith compare (x # xs) = insertBy compare x (sortWith compare xs)"
  by (simp add: sortWith_def)

lemma mset_sortWith: "mset (sortWith compare xs) = mset xs"
  by (induction xs) (simp_all add: sortWith_def mset_insertBy)

lemma set_sortWith: "set (sortWith compare xs) = set xs"
  using mset_sortWith [of compare xs] by (metis set_mset_mset)

lemma sorted_insertBy:
  assumes total: "\<forall>a\<in>S. \<forall>b\<in>S. compare a b \<le> 0 \<or> compare b a \<le> 0"
    and trans: "\<forall>a\<in>S. \<forall>b\<in>S. \<forall>c\<in>S. compare a b \<le> 0 \<longrightarrow> compare b c \<le> 0 \<longrightarrow> compare a c \<le> 0"
    and "x \<in> S" "set xs \<subseteq> S" "sorted_wrt (\<lambda>a b. compare a b \<le> 0) xs"
  shows "sorted_wrt (\<lambda>a b. compare a b \<le> 0) (insertBy compare x xs)"
  using assms(3-)
proof (induction xs)
  case Nil
  then show ?case by simp
next
  case (Cons y ys)
  show ?case
  proof (cases "compare x y \<le> 0")
    case True
    have "compare x z \<le> 0" if "z \<in> set ys" for z
    proof -
      have "compare y z \<le> 0" using Cons.prems(3) that by simp
      moreover have "z \<in> S" "y \<in> S" using Cons.prems(2) that by auto
      ultimately show ?thesis using trans True Cons.prems(1) by blast
    qed
    with True Cons.prems show ?thesis by simp
  next
    case False
    have "y \<in> S" using Cons.prems(2) by simp
    with False total Cons.prems(1) have "compare y x \<le> 0" by blast
    moreover have "sorted_wrt (\<lambda>a b. compare a b \<le> 0) (insertBy compare x ys)"
      using Cons by simp
    ultimately show ?thesis
      using False Cons.prems(3) by (simp add: set_insertBy)
  qed
qed

lemma sorted_sortWith:
  assumes "\<forall>a\<in>set xs. \<forall>b\<in>set xs. compare a b \<le> 0 \<or> compare b a \<le> 0"
    and "\<forall>a\<in>set xs. \<forall>b\<in>set xs. \<forall>c\<in>set xs.
           compare a b \<le> 0 \<longrightarrow> compare b c \<le> 0 \<longrightarrow> compare a c \<le> 0"
  shows "sorted_wrt (\<lambda>a b. compare a b \<le> 0) (sortWith compare xs)"
proof -
  have "sorted_wrt (\<lambda>a b. compare a b \<le> 0) (sortWith compare ys)" if "set ys \<subseteq> set xs" for ys
    using that
  proof (induction ys)
    case Nil
    then show ?case by (simp add: sortWith_def)
  next
    case (Cons y ys)
    then show ?case
      using sorted_insertBy [OF assms, of y "sortWith compare ys"]
      by (simp add: sortWith_Cons set_sortWith)
  qed
  then show ?thesis by simp
qed

lemma sorted_wrt_unique:
  assumes "sorted_wrt le xs" "sorted_wrt le ys" "mset xs = mset ys"
    and "\<forall>a\<in>set xs. \<forall>b\<in>set xs. le a b \<longrightarrow> le b a \<longrightarrow> a = b"
  shows "xs = ys"
  using assms
proof (induction xs arbitrary: ys)
  case Nil
  then show ?case by simp
next
  case (Cons x xs)
  then obtain y ys' where ys: "ys = y # ys'"
    by (cases ys) auto
  have sets: "set (x # xs) = set (y # ys')"
    using Cons.prems(3) ys by (metis set_mset_mset)
  have "x = y"
  proof (rule ccontr)
    assume neq: "x \<noteq> y"
    then have "x \<in> set ys'" and "y \<in> set xs"
      using sets by auto
    then have "le y x" and "le x y"
      using Cons.prems(1,2) ys by auto
    moreover have "y \<in> set (x # xs)"
      using sets by simp
    ultimately show False
      using Cons.prems(4) neq by auto
  qed
  moreover have "xs = ys'"
  proof (rule Cons.IH)
    show "sorted_wrt le xs" "sorted_wrt le ys'"
      using Cons.prems(1,2) ys by simp_all
    show "mset xs = mset ys'"
      using Cons.prems(3) ys \<open>x = y\<close> by simp
    show "\<forall>a\<in>set xs. \<forall>b\<in>set xs. le a b \<longrightarrow> le b a \<longrightarrow> a = b"
      using Cons.prems(4) by simp
  qed
  ultimately show ?case
    using ys by simp
qed

lemma insertBy_insort_key:
  "\<forall>y\<in>set ys. (compare x y \<le> 0) = (f x \<le> f y) \<Longrightarrow> insertBy compare x ys = insort_key f x ys"
  by (induction ys) auto

lemma sortWith_sort_key:
  assumes "\<forall>a\<in>set xs. \<forall>b\<in>set xs. (compare a b \<le> 0) = (f a \<le> f b)"
  shows "sortWith compare xs = sort_key f xs"
proof -
  have "sortWith compare ys = sort_key f ys" if "set ys \<subseteq> set xs" for ys
    using that
  proof (induction ys)
    case Nil
    then show ?case by (simp add: sortWith_def)
  next
    case (Cons y ys)
    then have "sortWith compare ys = sort_key f ys" by simp
    moreover have "\<forall>z\<in>set (sort_key f ys). (compare y z \<le> 0) = (f y \<le> f z)"
      using Cons.prems assms by auto
    ultimately show ?case
      by (simp add: sortWith_Cons insertBy_insort_key sort_key_def)
  qed
  then show ?thesis by simp
qed

subsection \<open>The order of the entries\<close>

text \<open>
  C7, as the code has it. The string that is hashed lists the entries in the order that a
  stable sort by \<open>localeCompare\<close> on the paths gives them: the same entries, each before every
  later one in that comparison. It is the byte-lexicographic construction of the claim for
  the lists on whose paths \<open>localeCompare\<close> and the byte order agree.
\<close>

theorem generateSnapshotHash_order:
  "generateSnapshotHash localeCompare files =
     blake3Hash (joinWith ''|''
       (map (\<lambda>file. path file @ '':'' @ blake3Hash (content file)) (sortedFiles localeCompare files)))
   \<and> mset (sortedFiles localeCompare files) = mset files
   \<and> ((\<forall>a\<in>set files. \<forall>b\<in>set files.
          localeCompare (path a) (path b) \<le> 0 \<or> localeCompare (path b) (path a) \<le> 0)
       \<and> (\<forall>a\<in>set files. \<forall>b\<in>set files. \<forall>c\<in>set files.
          localeCompare (path a) (path b) \<le> 0 \<longrightarrow> localeCompare (path b) (path c) \<le> 0
            \<longrightarrow> localeCompare (path a) (path c) \<le> 0)
       \<longrightarrow> sorted_wrt (\<lambda>a b. localeCompare (path a) (path b) \<le> 0) (sortedFiles localeCompare files))
   \<and> ((\<forall>a\<in>set files. \<forall>b\<in>set files.
          (localeCompare (path a) (path b) \<le> 0) = (path a \<le> path b))
       \<longrightarrow> generateSnapshotHash localeCompare files = byteOrderSnapshotHash files)"
proof -
  let ?cmp = "\<lambda>a b. localeCompare (path a) (path b)"
  have sorted: "sorted_wrt (\<lambda>a b. ?cmp a b \<le> 0) (sortedFiles localeCompare files)"
    if "\<forall>a\<in>set files. \<forall>b\<in>set files. ?cmp a b \<le> 0 \<or> ?cmp b a \<le> 0"
      and "\<forall>a\<in>set files. \<forall>b\<in>set files. \<forall>c\<in>set files.
             ?cmp a b \<le> 0 \<longrightarrow> ?cmp b c \<le> 0 \<longrightarrow> ?cmp a c \<le> 0"
    unfolding sortedFiles_def using that by (rule sorted_sortWith)
  have bytes: "generateSnapshotHash localeCompare files = byteOrderSnapshotHash files"
    if "\<forall>a\<in>set files. \<forall>b\<in>set files. (?cmp a b \<le> 0) = (path a \<le> path b)"
    using sortWith_sort_key [of files ?cmp path] that
    by (simp add: generateSnapshotHash_def combinedData_def sortedFiles_def byteOrderSnapshotHash_def)
  have string: "generateSnapshotHash localeCompare files =
      blake3Hash (joinWith ''|''
        (map (\<lambda>file. path file @ '':'' @ blake3Hash (content file)) (sortedFiles localeCompare files)))"
    by (simp add: generateSnapshotHash_def combinedData_def)
  have same: "mset (sortedFiles localeCompare files) = mset files"
    by (simp add: sortedFiles_def mset_sortWith)
  from string same sorted bytes show ?thesis
    by (intro conjI impI) blast+
qed

lemma lower_case_agreement:
  "\<forall>a\<in>set [fileLowerBy, fileAx]. \<forall>b\<in>set [fileLowerBy, fileAx].
     (localeCompareAscii (path a) (path b) \<le> 0) = (path a \<le> path b)"
  by (simp add: fileLowerBy_def fileAx_def localeCompareAscii_def primaryWeight_def
      tertiaryWeight_def toLowerChar_def)

theorem generateSnapshotHash_order_witness:
  "generateSnapshotHash localeCompareAscii [fileLowerBy, fileAx] =
     byteOrderSnapshotHash [fileLowerBy, fileAx]
   \<and> sortedFiles localeCompareAscii [fileLowerBy, fileAx] = [fileAx, fileLowerBy]"
proof -
  have "sortedFiles localeCompareAscii [fileLowerBy, fileAx] = [fileAx, fileLowerBy]"
    by (simp add: sortedFiles_def sortWith_def fileLowerBy_def fileAx_def localeCompareAscii_def
        primaryWeight_def tertiaryWeight_def toLowerChar_def)
  then show ?thesis
    using generateSnapshotHash_order [of localeCompareAscii "[fileLowerBy, fileAx]"]
      lower_case_agreement
    by blast
qed

lemma combinedData_locale_aB:
  "combinedData localeCompareAscii [fileAx, fileBy] =
     ''a:2d711642b726b04401627ca9fbac32f5c8530fb1903cc4db02258717921a4881|B:a1fce4363854ff888cff4b8e7875d600c2682390412a8cf79b37d0b11148b0fa''"
  by (simp add: combinedData_def sortedFiles_def sortWith_def fileAx_def fileBy_def
      localeCompareAscii_def primaryWeight_def tertiaryWeight_def toLowerChar_def
      blake3Hash_x blake3Hash_y)

lemma byteOrder_aB:
  "sort_key path [fileAx, fileBy] = [fileBy, fileAx]"
  by (simp add: fileAx_def fileBy_def)

lemma blake3Hash_aB:
  "blake3Hash ''a:2d711642b726b04401627ca9fbac32f5c8530fb1903cc4db02258717921a4881|B:a1fce4363854ff888cff4b8e7875d600c2682390412a8cf79b37d0b11148b0fa''
     = ''6a168da2106e33a8fd9163ab10a4480a4f6719cbb4195dfa92235fe303da92bb''"
  by code_simp

lemma blake3Hash_Ba:
  "blake3Hash ''B:a1fce4363854ff888cff4b8e7875d600c2682390412a8cf79b37d0b11148b0fa|a:2d711642b726b04401627ca9fbac32f5c8530fb1903cc4db02258717921a4881''
     = ''30cf69ef65061a593c03ecd2fe142924e2f27072124bc9138051b40c3c9742fd''"
  by code_simp

text \<open>
  C7 as stated fails: for the paths \<open>a\<close> and \<open>B\<close> the collation puts \<open>a\<close> first and the byte
  order puts \<open>B\<close> first, so the code hashes another string than the claim's construction.
\<close>

theorem generateSnapshotHash_byte_order_counterexample:
  "generateSnapshotHash localeCompareAscii [fileAx, fileBy] \<noteq> byteOrderSnapshotHash [fileAx, fileBy]"
  by (simp add: generateSnapshotHash_def combinedData_locale_aB byteOrderSnapshotHash_def
      byteOrder_aB blake3Hash_aB)
    (simp add: fileAx_def fileBy_def blake3Hash_x blake3Hash_y blake3Hash_Ba)

subsection \<open>Permutations of the file list\<close>

text \<open>
  A permutation of the list has the same hash when the comparison separates the entries: it
  orders the paths of the list (any two are comparable, and the comparison is transitive),
  and two entries that it puts on a par are the same entry. This holds in particular for a
  list whose paths are pairwise different under \<open>localeCompare\<close>.
\<close>

lemma generateSnapshotHash_permutation:
  assumes total: "\<forall>a\<in>set files. \<forall>b\<in>set files.
        localeCompare (path a) (path b) \<le> 0 \<or> localeCompare (path b) (path a) \<le> 0"
    and trans: "\<forall>a\<in>set files. \<forall>b\<in>set files. \<forall>c\<in>set files.
        localeCompare (path a) (path b) \<le> 0 \<longrightarrow> localeCompare (path b) (path c) \<le> 0
          \<longrightarrow> localeCompare (path a) (path c) \<le> 0"
    and ties: "\<forall>a\<in>set files. \<forall>b\<in>set files.
        localeCompare (path a) (path b) \<le> 0 \<longrightarrow> localeCompare (path b) (path a) \<le> 0 \<longrightarrow> a = b"
    and perm: "mset files' = mset files"
  shows "generateSnapshotHash localeCompare files' = generateSnapshotHash localeCompare files"
proof -
  let ?cmp = "\<lambda>a b. localeCompare (path a) (path b)"
  let ?le = "\<lambda>a b. ?cmp a b \<le> 0"
  have sets: "set files' = set files"
    using perm by (metis set_mset_mset)
  have "sorted_wrt ?le (sortWith ?cmp files)"
    using total trans by (rule sorted_sortWith)
  moreover have "sorted_wrt ?le (sortWith ?cmp files')"
    using total trans unfolding sets [symmetric] by (rule sorted_sortWith)
  moreover have "mset (sortWith ?cmp files') = mset (sortWith ?cmp files)"
    using perm by (simp add: mset_sortWith)
  moreover have "\<forall>a\<in>set (sortWith ?cmp files'). \<forall>b\<in>set (sortWith ?cmp files'). ?le a b \<longrightarrow> ?le b a \<longrightarrow> a = b"
    using ties by (simp add: set_sortWith sets)
  ultimately have "sortWith ?cmp files' = sortWith ?cmp files"
    by (intro sorted_wrt_unique [where le = ?le])
  then show ?thesis
    by (simp add: generateSnapshotHash_def combinedData_def sortedFiles_def)
qed

lemma generateSnapshotHash_permutation_example:
  "mset [fileAx, fileLowerBy] = mset [fileLowerBy, fileAx]
   \<and> generateSnapshotHash localeCompareAscii [fileAx, fileLowerBy] =
       generateSnapshotHash localeCompareAscii [fileLowerBy, fileAx]"
proof -
  have total: "\<forall>a\<in>set [fileLowerBy, fileAx]. \<forall>b\<in>set [fileLowerBy, fileAx].
      localeCompareAscii (path a) (path b) \<le> 0 \<or> localeCompareAscii (path b) (path a) \<le> 0"
    by (simp add: fileLowerBy_def fileAx_def localeCompareAscii_def primaryWeight_def
        tertiaryWeight_def toLowerChar_def)
  have trans: "\<forall>a\<in>set [fileLowerBy, fileAx]. \<forall>b\<in>set [fileLowerBy, fileAx].
      \<forall>c\<in>set [fileLowerBy, fileAx].
      localeCompareAscii (path a) (path b) \<le> 0 \<longrightarrow> localeCompareAscii (path b) (path c) \<le> 0
        \<longrightarrow> localeCompareAscii (path a) (path c) \<le> 0"
    by (simp add: fileLowerBy_def fileAx_def localeCompareAscii_def primaryWeight_def
        tertiaryWeight_def toLowerChar_def)
  have ties: "\<forall>a\<in>set [fileLowerBy, fileAx]. \<forall>b\<in>set [fileLowerBy, fileAx].
      localeCompareAscii (path a) (path b) \<le> 0 \<longrightarrow> localeCompareAscii (path b) (path a) \<le> 0
        \<longrightarrow> a = b"
    by (simp add: fileLowerBy_def fileAx_def localeCompareAscii_def primaryWeight_def
        tertiaryWeight_def toLowerChar_def)
  have perm: "mset [fileAx, fileLowerBy] = mset [fileLowerBy, fileAx]"
    by simp
  show ?thesis
    using generateSnapshotHash_permutation [OF total trans ties perm] perm by simp
qed

lemma combinedData_locale_xy:
  "combinedData localeCompareAscii [fileAx, fileAy] =
     ''a:2d711642b726b04401627ca9fbac32f5c8530fb1903cc4db02258717921a4881|a:a1fce4363854ff888cff4b8e7875d600c2682390412a8cf79b37d0b11148b0fa''"
  by (simp add: combinedData_def sortedFiles_def sortWith_def fileAx_def fileAy_def
      localeCompareAscii_def primaryWeight_def tertiaryWeight_def toLowerChar_def
      blake3Hash_x blake3Hash_y)

lemma combinedData_locale_yx:
  "combinedData localeCompareAscii [fileAy, fileAx] =
     ''a:a1fce4363854ff888cff4b8e7875d600c2682390412a8cf79b37d0b11148b0fa|a:2d711642b726b04401627ca9fbac32f5c8530fb1903cc4db02258717921a4881''"
  by (simp add: combinedData_def sortedFiles_def sortWith_def fileAx_def fileAy_def
      localeCompareAscii_def primaryWeight_def tertiaryWeight_def toLowerChar_def
      blake3Hash_x blake3Hash_y)

lemma blake3Hash_xy:
  "blake3Hash ''a:2d711642b726b04401627ca9fbac32f5c8530fb1903cc4db02258717921a4881|a:a1fce4363854ff888cff4b8e7875d600c2682390412a8cf79b37d0b11148b0fa''
     = ''5646fb6ac287040e628b366089ee980b9e65d1e00a46db97a253be9f88b8268d''"
  by code_simp

lemma blake3Hash_yx:
  "blake3Hash ''a:a1fce4363854ff888cff4b8e7875d600c2682390412a8cf79b37d0b11148b0fa|a:2d711642b726b04401627ca9fbac32f5c8530fb1903cc4db02258717921a4881''
     = ''69feba076bb99ea937a2f583c938cac752ef8525356facc8cc49d004bb9e6b14''"
  by code_simp

text \<open>
  C8. The claim has every permutation of a file list hash alike, and the comments of the
  source say that the sort by path makes the hash independent of the order. The sort
  compares paths only and is stable: two entries with one path and different contents stay
  in the order of the input, and the two orders of such a list have different hashes.
\<close>

theorem generateSnapshotHash_duplicate_path_order:
  "mset [fileAy, fileAx] = mset [fileAx, fileAy]
   \<and> generateSnapshotHash localeCompareAscii [fileAx, fileAy] =
       ''5646fb6ac287040e628b366089ee980b9e65d1e00a46db97a253be9f88b8268d''
   \<and> generateSnapshotHash localeCompareAscii [fileAy, fileAx] =
       ''69feba076bb99ea937a2f583c938cac752ef8525356facc8cc49d004bb9e6b14''
   \<and> generateSnapshotHash localeCompareAscii [fileAy, fileAx] \<noteq>
       generateSnapshotHash localeCompareAscii [fileAx, fileAy]"
  by (simp add: generateSnapshotHash_def combinedData_locale_xy combinedData_locale_yx
      blake3Hash_xy blake3Hash_yx)

section \<open>Properties of the snapshot tools\<close>

subsection \<open>The tier gate\<close>

lemma snapshot_tool_access:
  "hasToolAccess table authResult (toolName tool) =
     (valid authResult \<and> table (auth_tier authResult) (OwnString ''snapback:snapshot''))"
  by (cases tool)
    (simp_all add: hasToolAccess_def hasPermission_def readProperty_def toolPermissions_def)

lemma proRequiredMessage_names_Pro: "includesStr proRequiredMessage ''Pro subscription''"
  by code_simp

text \<open>
  The tier gate for the tiers free and pro. A valid principal reaches the gate of a snapshot
  tool when its tier holds the permission \<open>snapback:snapshot\<close>. Behind that check, a caller
  of tier free gets a response without \<open>isError\<close> and without an error object, the world
  untouched: its first content element is a SARIF log whose one result carries the upgrade
  message, with \<open>Pro subscription\<close> in it, and its second element is that message as text.
  A caller of tier pro is served by the tool.
\<close>

lemma snapshot_tool_tier_gate:
  assumes "valid authResult"
    and "permits env (auth_tier authResult) (OwnString ''snapback:snapshot'')"
  shows "(auth_tier authResult = Free \<longrightarrow>
            callTool env authResult tool args w = (proRequired tool, w))
    \<and> (auth_tier authResult = Pro \<longrightarrow>
            callTool env authResult tool args w = serve env tool args w)
    \<and> isError (proRequired tool) = False
    \<and> error_object (proRequired tool) = None
    \<and> (\<exists>sarifLog result.
          response_content (proRequired tool) =
            [JsonContent (SarifPayload sarifLog), TextContent (crossMark @ '' '' @ proRequiredMessage)]
          \<and> results (hd (runs sarifLog)) = Some [result]
          \<and> ruleId result = ''pro-tool-restricted''
          \<and> message_text result = proRequiredMessage)
    \<and> includesStr proRequiredMessage ''Pro subscription''"
proof -
  have access: "hasToolAccess (permits env) authResult (toolName tool)"
    using assms by (simp add: snapshot_tool_access)
  have free: "callTool env authResult tool args w = (proRequired tool, w)"
    if "auth_tier authResult = Free"
    using access that by (simp add: callTool_def)
  have pro: "callTool env authResult tool args w = serve env tool args w"
    if "auth_tier authResult = Pro"
    using access that by (simp add: callTool_def)
  have plain: "isError (proRequired tool) = False" "error_object (proRequired tool) = None"
    by (simp_all add: proRequired_def Let_def)
  have first: "\<exists>sarifLog result.
      response_content (proRequired tool) =
        [JsonContent (SarifPayload sarifLog), TextContent (crossMark @ '' '' @ proRequiredMessage)]
      \<and> results (hd (runs sarifLog)) = Some [result]
      \<and> ruleId result = ''pro-tool-restricted''
      \<and> message_text result = proRequiredMessage"
    by (simp add: proRequired_def addResult_def createSarifLog_def Let_def)
  from free pro plain first proRequiredMessage_names_Pro show ?thesis
    by (intro conjI impI) blast+
qed

lemma snapshot_tool_tier_gate_example:
  "valid (principal Free) \<and> valid (principal Pro)
   \<and> callTool sampleEnvironment (principal Free) ListSnapshotsTool None sampleWorld =
       (proRequired ListSnapshotsTool, sampleWorld)
   \<and> callTool sampleEnvironment (principal Pro) ListSnapshotsTool None sampleWorld =
       serve sampleEnvironment ListSnapshotsTool None sampleWorld
   \<and> response_content (fst (serve sampleEnvironment ListSnapshotsTool None sampleWorld)) =
       [JsonContent (SnapshotsPayload
          [\<lparr> summary_id = ''s1'', summary_timestamp = 1700000000000,
              summary_reason = ''before refactor'', summary_fileCount = 1 \<rparr>])]"
proof -
  have free: "valid (principal Free)"
    "permits sampleEnvironment (auth_tier (principal Free)) (OwnString ''snapback:snapshot'')"
    "auth_tier (principal Free) = Free"
    by code_simp+
  have pro: "valid (principal Pro)"
    "permits sampleEnvironment (auth_tier (principal Pro)) (OwnString ''snapback:snapshot'')"
    "auth_tier (principal Pro) = Pro"
    by code_simp+
  have refused: "callTool sampleEnvironment (principal Free) ListSnapshotsTool None sampleWorld =
      (proRequired ListSnapshotsTool, sampleWorld)"
    by (rule snapshot_tool_tier_gate [OF free(1,2), THEN conjunct1, THEN mp, OF free(3)])
  have served: "callTool sampleEnvironment (principal Pro) ListSnapshotsTool None sampleWorld =
      serve sampleEnvironment ListSnapshotsTool None sampleWorld"
    by (rule snapshot_tool_tier_gate [OF pro(1,2), THEN conjunct2, THEN conjunct1, THEN mp, OF pro(3)])
  have listing: "response_content (fst (serve sampleEnvironment ListSnapshotsTool None sampleWorld)) =
      [JsonContent (SnapshotsPayload
         [\<lparr> summary_id = ''s1'', summary_timestamp = 1700000000000,
             summary_reason = ''before refactor'', summary_fileCount = 1 \<rparr>])]"
    by code_simp
  show ?thesis
    by (intro conjI) (rule free(1) pro(1) refused served listing)+
qed

text \<open>
  C6. The claim has the callers of tier pro or admin served by the tool itself. The gate of
  the source lets tier pro through and no other tier, although its comment speaks of a note
  for Free users and a principal may have the tier admin. A valid caller of tier admin that
  holds the permission of the snapshot tools is served by none of the three: each call gets
  the upgrade notice, and the list that \<open>snapback.list_snapshots\<close> would have given is not
  returned.
\<close>

theorem snapshot_tool_admin_refused:
  "valid (principal Admin) \<and> auth_tier (principal Admin) = Admin
   \<and> hasToolAccess (permits sampleEnvironment) (principal Admin) (toolName ListSnapshotsTool)
   \<and> fst (callTool sampleEnvironment (principal Admin) CreateSnapshotTool None sampleWorld) =
       proRequired CreateSnapshotTool
   \<and> fst (callTool sampleEnvironment (principal Admin) ListSnapshotsTool None sampleWorld) =
       proRequired ListSnapshotsTool
   \<and> fst (callTool sampleEnvironment (principal Admin) RestoreSnapshotTool
        (Some restoreArguments) sampleWorld) =
       proRequired RestoreSnapshotTool
   \<and> response_content (fst (serve sampleEnvironment ListSnapshotsTool None sampleWorld)) =
       [JsonContent (SnapshotsPayload
          [\<lparr> summary_id = ''s1'', summary_timestamp = 1700000000000,
              summary_reason = ''before refactor'', summary_fileCount = 1 \<rparr>])]
   \<and> fst (callTool sampleEnvironment (principal Admin) ListSnapshotsTool None sampleWorld) \<noteq>
       fst (serve sampleEnvironment ListSnapshotsTool None sampleWorld)"
  by code_simp

subsection \<open>Restoring\<close>

lemma parseSnapshotId_string:
  "object ''snapshotId'' = Some (StringArg snapshotId) \<Longrightarrow>
   parseSnapshotId env (Some object) = Inr snapshotId"
  by (simp add: parseSnapshotId_def)

lemma sdkRestore_metadata_only: "snd (sdkRestore h snapshotId None w) = w"
  by (simp add: sdkRestore_def split: option.splits)

lemma restoreSnapshot_metadata_only:
  "snd (restoreSnapshot (sdkManager h create list) snapshotId None w) = w"
proof -
  obtain result where "sdkRestore h snapshotId None w = (result, w)"
    using sdkRestore_metadata_only [of h snapshotId w] by (metis prod.collapse)
  then show ?thesis
    by (simp add: restoreSnapshot_def sdkManager_def sdkGet_def split: option.splits sum.splits)
qed

lemma serveRestoreSnapshot_metadata_only:
  assumes "manager env = sdkManager h create list"
  shows "snd (serveRestoreSnapshot env args w) = w"
proof (cases "parseSnapshotId env args")
  case (Inl error)
  then show ?thesis
    by (simp add: serveRestoreSnapshot_def)
next
  case (Inr snapshotId)
  obtain outcome where "restoreSnapshot (manager env) snapshotId None w = (outcome, w)"
    using restoreSnapshot_metadata_only [of h create list snapshotId w] assms
    by (metis prod.collapse)
  then show ?thesis
    using Inr by (cases outcome) (simp_all add: serveRestoreSnapshot_def)
qed

lemma restoreSnapshot_forwards:
  assumes "manager_get mgr snapshotId w = (Inr (Some snapshot), w')"
  shows "snd (restoreSnapshot mgr snapshotId targetPath w) =
         snd (manager_restore mgr snapshotId targetPath w')"
  using assms
  by (cases "manager_restore mgr snapshotId targetPath w'")
    (auto simp: restoreSnapshot_def split: sum.splits)

text \<open>
  C2, as the code has it. The handler of \<open>snapback.restore_snapshot\<close> reads \<open>snapshotId\<close> and
  nothing else: the response and the world after the call are those of
  \<open>restoreSnapshot(snapshotId)\<close>, whatever is under \<open>targetPath\<close>. Called through the tool,
  the manager of the specification therefore never changes the world: every restore of the
  tool is metadata-only. \<open>restoreSnapshot\<close> itself hands the \<open>targetPath\<close> it is given to
  \<open>manager.restore\<close>.
\<close>

theorem restore_tool_ignores_targetPath:
  "(object ''snapshotId'' = Some (StringArg snapshotId) \<longrightarrow>
      serve env RestoreSnapshotTool (Some object) w =
        (case restoreSnapshot (manager env) snapshotId None w of
           (Failed error, w') \<Rightarrow> (failedResponse ''restore snapshot'' error, w')
         | (Succeeded snapshot, w') \<Rightarrow>
             (\<lparr> response_content = [JsonContent (RestoredPayload snapshot)],
                isError = False, error_object = None \<rparr>, w'))
      \<and> callTool env authResult RestoreSnapshotTool (Some (object(''targetPath'' := targetArgument))) w =
          callTool env authResult RestoreSnapshotTool (Some object) w)
   \<and> (manager env = sdkManager h create list \<longrightarrow>
        snd (callTool env authResult RestoreSnapshotTool args w) = w)
   \<and> (manager_get (manager env) snapshotId w = (Inr (Some found), w1) \<longrightarrow>
        snd (restoreSnapshot (manager env) snapshotId targetPath w) =
          snd (manager_restore (manager env) snapshotId targetPath w1))"
proof -
  have served: "serve env RestoreSnapshotTool (Some object) w =
        (case restoreSnapshot (manager env) snapshotId None w of
           (Failed error, w') \<Rightarrow> (failedResponse ''restore snapshot'' error, w')
         | (Succeeded snapshot, w') \<Rightarrow>
             (\<lparr> response_content = [JsonContent (RestoredPayload snapshot)],
                isError = False, error_object = None \<rparr>, w'))"
    if "object ''snapshotId'' = Some (StringArg snapshotId)" for object
    using that by (simp add: serveRestoreSnapshot_def parseSnapshotId_string)
  have ignored: "callTool env authResult RestoreSnapshotTool (Some (object(''targetPath'' := targetArgument))) w =
      callTool env authResult RestoreSnapshotTool (Some object) w"
    if id: "object ''snapshotId'' = Some (StringArg snapshotId)"
  proof -
    have "(object(''targetPath'' := targetArgument)) ''snapshotId'' = Some (StringArg snapshotId)"
      using id by simp
    from served [of "object(''targetPath'' := targetArgument)", OF this] served [of object, OF id]
    show ?thesis
      by (simp add: callTool_def)
  qed
  have untouched: "snd (callTool env authResult RestoreSnapshotTool args w) = w"
    if "manager env = sdkManager h create list"
    using serveRestoreSnapshot_metadata_only [OF that] by (simp add: callTool_def)
  have forwards: "snd (restoreSnapshot (manager env) snapshotId targetPath w) =
      snd (manager_restore (manager env) snapshotId targetPath w1)"
    if "manager_get (manager env) snapshotId w = (Inr (Some found), w1)"
    using that by (rule restoreSnapshot_forwards)
  from served ignored untouched forwards show ?thesis
    by (intro conjI impI) blast+
qed

theorem restore_tool_ignores_targetPath_witness:
  "restoreArguments ''snapshotId'' = Some (StringArg ''s1'')
   \<and> callTool sampleEnvironment (principal Pro) RestoreSnapshotTool
        (Some (restoreArguments(''targetPath'' := None))) sampleWorld =
       callTool sampleEnvironment (principal Pro) RestoreSnapshotTool (Some restoreArguments) sampleWorld
   \<and> snd (callTool sampleEnvironment (principal Pro) RestoreSnapshotTool (Some restoreArguments) sampleWorld) =
       sampleWorld
   \<and> snd (restoreSnapshot (manager sampleEnvironment) ''s1'' (Some ''/ws'') sampleWorld) =
       snd (manager_restore (manager sampleEnvironment) ''s1'' (Some ''/ws'') sampleWorld)"
proof -
  have id: "restoreArguments ''snapshotId'' = Some (StringArg ''s1'')"
    by code_simp
  have sdk: "manager sampleEnvironment =
      sdkManager sampleHost (\<lambda>inputs options w. (Inl (Error ''storage unavailable''), w))
        (\<lambda>w. (Inr (store w), w))"
    by (simp add: sampleEnvironment_def)
  have got: "manager_get (manager sampleEnvironment) ''s1'' sampleWorld =
      (Inr (Some sampleSnapshot), sampleWorld)"
    by (simp add: sdk sdkManager_def sdkGet_def sampleWorld_def sampleSnapshot_def)
  note gate = restore_tool_ignores_targetPath
    [where env = sampleEnvironment and authResult = "principal Pro" and w = sampleWorld
      and snapshotId = "''s1''"]
  have ignored: "callTool sampleEnvironment (principal Pro) RestoreSnapshotTool
        (Some (restoreArguments(''targetPath'' := None))) sampleWorld =
      callTool sampleEnvironment (principal Pro) RestoreSnapshotTool (Some restoreArguments) sampleWorld"
    by (rule gate [where object = restoreArguments and targetArgument = None,
          THEN conjunct1, THEN mp, OF id, THEN conjunct2])
  have untouched: "snd (callTool sampleEnvironment (principal Pro) RestoreSnapshotTool
        (Some restoreArguments) sampleWorld) = sampleWorld"
    by (rule gate [where args = "Some restoreArguments", THEN conjunct2, THEN conjunct1, THEN mp, OF sdk])
  have forwards: "snd (restoreSnapshot (manager sampleEnvironment) ''s1'' (Some ''/ws'') sampleWorld) =
      snd (manager_restore (manager sampleEnvironment) ''s1'' (Some ''/ws'') sampleWorld)"
    by (rule gate [where targetPath = "Some ''/ws''", THEN conjunct2, THEN conjunct2, THEN mp, OF got])
  show ?thesis
    by (intro conjI) (rule id ignored untouched forwards)+
qed

text \<open>
  C2 as stated fails: called with \<open>targetPath\<close> \<open>/ws\<close> for a snapshot that holds \<open>a.txt\<close>, the
  tool writes no file under \<open>/ws\<close>, while \<open>restoreSnapshot\<close> given the same path does.
\<close>

theorem restore_tool_targetPath_counterexample:
  "restoreArguments ''targetPath'' = Some (StringArg ''/ws'')
   \<and> fileSystem (snd (callTool sampleEnvironment (principal Pro) RestoreSnapshotTool
        (Some restoreArguments) sampleWorld)) ''/ws/a.txt'' = None
   \<and> fileSystem (snd (restoreSnapshot (manager sampleEnvironment) ''s1'' (Some ''/ws'') sampleWorld))
        ''/ws/a.txt'' = Some ''hi''"
  by code_simp

end
